theory Spec2Isabelle
  imports Complex_Main
begin

section \<open>Numbers and vectors of the C++ program\<close>

text \<open>
  A C++ \<open>double\<close> is modelled by its four kinds of value. Arithmetic on finite values is
  exact real arithmetic (rounding and overflow to infinity are left out, and the two zeros
  are one); the special values follow IEEE 754. A finite value that the model computes is
  thus the value of the program before rounding: the statements below that give such values
  (sums of log-probabilities, decayed entries of the feature layer, perplexity and entropy)
  are statements of this exact arithmetic. The statements on the control flow are made for
  whatever a comparison yields. The C++ comparisons \<open><\<close> and \<open>!=\<close> are
  the functions \<open>d_less\<close> and \<open>d_noteq\<close>: any comparison with a NaN by \<open><\<close> is false,
  and \<open>x != x\<close> holds exactly for a NaN.
\<close>

datatype double = Finite real | PosInf | NegInf | NaN

instantiation double :: comm_monoid_add
begin

fun plus_double :: "double \<Rightarrow> double \<Rightarrow> double" where
  "plus_double NaN y = NaN"
| "plus_double x NaN = NaN"
| "plus_double (Finite a) (Finite b) = Finite (a + b)"
| "plus_double PosInf NegInf = NaN"
| "plus_double NegInf PosInf = NaN"
| "plus_double PosInf y = PosInf"
| "plus_double x PosInf = PosInf"
| "plus_double NegInf y = NegInf"
| "plus_double x NegInf = NegInf"

definition zero_double :: double where
  "zero_double = Finite 0"

instance
proof
  fix x y z :: double
  show "x + y = y + x"
    by (cases x; cases y; simp)
  show "0 + x = x"
    by (cases x; simp add: zero_double_def)
  show "x + y + z = x + (y + z)"
    by (cases x; cases y; cases z; simp)
qed

end

instantiation double :: "{times, uminus}"
begin

fun times_double :: "double \<Rightarrow> double \<Rightarrow> double" where
  "times_double NaN y = NaN"
| "times_double x NaN = NaN"
| "times_double (Finite a) (Finite b) = Finite (a * b)"
| "times_double (Finite a) PosInf = (if a = 0 then NaN else if 0 < a then PosInf else NegInf)"
| "times_double (Finite a) NegInf = (if a = 0 then NaN else if 0 < a then NegInf else PosInf)"
| "times_double PosInf (Finite b) = (if b = 0 then NaN else if 0 < b then PosInf else NegInf)"
| "times_double NegInf (Finite b) = (if b = 0 then NaN else if 0 < b then NegInf else PosInf)"
| "times_double PosInf PosInf = PosInf"
| "times_double PosInf NegInf = NegInf"
| "times_double NegInf PosInf = NegInf"
| "times_double NegInf NegInf = PosInf"

fun uminus_double :: "double \<Rightarrow> double" where
  "uminus_double (Finite a) = Finite (- a)"
| "uminus_double PosInf = NegInf"
| "uminus_double NegInf = PosInf"
| "uminus_double NaN = NaN"

instance ..

end

text \<open>Division; a zero divisor is the positive zero (the divisors of the program are
  converted counters and constants).\<close>

fun d_div :: "double \<Rightarrow> double \<Rightarrow> double" where
  "d_div NaN y = NaN"
| "d_div x NaN = NaN"
| "d_div (Finite a) (Finite b) =
     (if b \<noteq> 0 then Finite (a / b)
      else if a = 0 then NaN else if 0 < a then PosInf else NegInf)"
| "d_div (Finite a) y = Finite 0"
| "d_div PosInf (Finite b) = (if 0 \<le> b then PosInf else NegInf)"
| "d_div NegInf (Finite b) = (if 0 \<le> b then NegInf else PosInf)"
| "d_div x y = NaN"

fun d_less :: "double \<Rightarrow> double \<Rightarrow> bool" where
  "d_less NaN y = False"
| "d_less x NaN = False"
| "d_less (Finite a) (Finite b) = (a < b)"
| "d_less PosInf y = False"
| "d_less x PosInf = True"
| "d_less NegInf NegInf = False"
| "d_less NegInf y = True"
| "d_less x NegInf = False"

fun d_noteq :: "double \<Rightarrow> double \<Rightarrow> bool" where
  "d_noteq NaN y = True"
| "d_noteq x NaN = True"
| "d_noteq x y = (x \<noteq> y)"

fun log10 :: "double \<Rightarrow> double" where
  "log10 (Finite a) = (if 0 < a then Finite (log 10 a) else if a = 0 then NegInf else NaN)"
| "log10 PosInf = PosInf"
| "log10 NegInf = NaN"
| "log10 NaN = NaN"

definition double_of_int :: "int \<Rightarrow> double" where
  "double_of_int i = Finite (real_of_int i)"

text \<open>
  A run of a function of the program either goes on with a value (\<open>Inr\<close>) or stops
  (\<open>Inl\<close>): \<open>ReturnFalse m\<close> is the statement \<open>return false\<close>, reached with the object
  in state \<open>m\<close>; \<open>UndefinedBehaviour\<close> is an access of a \<open>std::vector\<close> outside its
  bounds by \<open>operator[]\<close>, or a conversion of a \<open>double\<close> outside the range of \<open>int\<close>,
  after which C++ promises nothing.
\<close>

datatype 'm abort = UndefinedBehaviour | ReturnFalse 'm

fun thenE :: "'e + 'a \<Rightarrow> ('a \<Rightarrow> 'e + 'b) \<Rightarrow> 'e + 'b" where
  "thenE (Inl e) f = Inl e"
| "thenE (Inr x) f = f x"

definition vget :: "'a list \<Rightarrow> int \<Rightarrow> 'm abort + 'a" where
  "vget v i = (if 0 \<le> i \<and> i < int (length v) then Inr (v ! nat i) else Inl UndefinedBehaviour)"

definition vset :: "'a list \<Rightarrow> int \<Rightarrow> 'a \<Rightarrow> 'm abort + 'a list" where
  "vset v i x =
     (if 0 \<le> i \<and> i < int (length v) then Inr (v[nat i := x]) else Inl UndefinedBehaviour)"

text \<open>The loops: over the items a reader yields, \<open>for (a = lo; a < hi; a++)\<close> and
  \<open>for (a = top; a > 0; a--)\<close>. A loop stops at the first step that stops.\<close>

fun for_each :: "('a \<Rightarrow> 's \<Rightarrow> 'e + 's) \<Rightarrow> 'a list \<Rightarrow> 's \<Rightarrow> 'e + 's" where
  "for_each f [] s = Inr s"
| "for_each f (x # xs) s = (case f x s of Inl e \<Rightarrow> Inl e | Inr s' \<Rightarrow> for_each f xs s')"

function for_up :: "int \<Rightarrow> int \<Rightarrow> (int \<Rightarrow> 's \<Rightarrow> 'e + 's) \<Rightarrow> 's \<Rightarrow> 'e + 's" where
  "for_up a hi f s =
     (if a < hi then (case f a s of Inl e \<Rightarrow> Inl e | Inr s' \<Rightarrow> for_up (a + 1) hi f s')
      else Inr s)"
  by pat_completeness auto
termination
  by (relation "measure (\<lambda>(a, hi, f, s). nat (hi - a))") auto

function for_down :: "int \<Rightarrow> (int \<Rightarrow> 's \<Rightarrow> 'e + 's) \<Rightarrow> 's \<Rightarrow> 'e + 's" where
  "for_down a f s =
     (if 0 < a then (case f a s of Inl e \<Rightarrow> Inl e | Inr s' \<Rightarrow> for_down (a - 1) f s')
      else Inr s)"
  by pat_completeness auto
termination
  by (relation "measure (\<lambda>(a, f, s). nat a)") auto

declare for_up.simps [simp del] for_down.simps [simp del]

section \<open>The state containers (RnnState.h)\<close>

definition c_maxNGramOrder :: nat where
  "c_maxNGramOrder = 20"

record RnnState =
  InputLayer :: "double list"
  FeatureLayer :: "double list"
  RecurrentLayer :: "double list"
  HiddenLayer :: "double list"
  CompressLayer :: "double list"
  OutputLayer :: "double list"
  InputGradient :: "double list"
  FeatureGradient :: "double list"
  RecurrentGradient :: "double list"
  HiddenGradient :: "double list"
  CompressGradient :: "double list"
  OutputGradient :: "double list"
  WordHistory :: "int list"
  m_orderDirectConnection :: int

text \<open>The constructor of \<open>RnnState\<close>; the sizes are natural numbers (a negative \<open>int\<close>
  would be converted to a huge \<open>size_t\<close>, and \<open>assign\<close> would throw).\<close>

definition RnnState_new :: "nat \<Rightarrow> nat \<Rightarrow> nat \<Rightarrow> nat \<Rightarrow> nat \<Rightarrow> int \<Rightarrow> RnnState" where
  "RnnState_new sizeVocabulary sizeHidden sizeFeature sizeClasses sizeCompress
       orderDirectConnection =
     (let sizeInput = sizeVocabulary; sizeOutput = sizeVocabulary + sizeClasses in
      \<lparr> InputLayer = replicate sizeInput 0,
        FeatureLayer = replicate sizeFeature 0,
        RecurrentLayer = replicate sizeHidden 0,
        HiddenLayer = replicate sizeHidden 0,
        CompressLayer = replicate sizeCompress 0,
        OutputLayer = replicate sizeOutput 0,
        InputGradient = replicate sizeInput 0,
        FeatureGradient = replicate sizeFeature 0,
        RecurrentGradient = replicate sizeHidden 0,
        HiddenGradient = replicate sizeHidden 0,
        CompressGradient = replicate sizeCompress 0,
        OutputGradient = replicate sizeOutput 0,
        WordHistory = replicate c_maxNGramOrder 0,
        m_orderDirectConnection = orderDirectConnection \<rparr>)"

text \<open>The fields of \<open>RnnBptt\<close> that share a name with a field of \<open>RnnState\<close> or of the
  model carry the suffix \<open>_bptt\<close>.\<close>

record RnnBptt =
  History :: "int list"
  HiddenLayer_bptt :: "double list"
  HiddenGradient_bptt :: "double list"
  FeatureLayer_bptt :: "double list"
  FeatureGradient_bptt :: "double list"
  WeightsInput2Hidden :: "double list"
  WeightsRecurrent2Hidden :: "double list"
  WeightsFeature2Hidden :: "double list"
  m_numBpttSteps_bptt :: nat
  m_bpttBlockSize_bptt :: nat

definition RnnBptt_new :: "nat \<Rightarrow> nat \<Rightarrow> nat \<Rightarrow> nat \<Rightarrow> nat \<Rightarrow> RnnBptt" where
  "RnnBptt_new sizeVocabulary sizeHidden sizeFeature numBpttSteps bpttBlockSize =
     (let sizeInput = sizeVocabulary in
      \<lparr> History = replicate (numBpttSteps + bpttBlockSize + 10) (- 1),
        HiddenLayer_bptt = replicate ((numBpttSteps + bpttBlockSize + 1) * sizeHidden) 0,
        HiddenGradient_bptt = replicate ((numBpttSteps + bpttBlockSize + 1) * sizeHidden) 0,
        FeatureLayer_bptt = replicate ((numBpttSteps + bpttBlockSize + 2) * sizeFeature) 0,
        FeatureGradient_bptt = replicate ((numBpttSteps + bpttBlockSize + 2) * sizeFeature) 0,
        WeightsInput2Hidden = replicate (sizeInput * sizeHidden) 0,
        WeightsRecurrent2Hidden = replicate (sizeHidden * sizeHidden) 0,
        WeightsFeature2Hidden = replicate (sizeFeature * sizeHidden) 0,
        m_numBpttSteps_bptt = numBpttSteps,
        m_bpttBlockSize_bptt = bpttBlockSize \<rparr>)"

section \<open>The language model object and its collaborators\<close>

text \<open>
  What the corpus reader (\<open>CorpusUnrollsReader\<close>, \<open>BookUnrolls\<close>) yields: a book is a
  sequence of sentences, a sentence a sequence of unrolls, an unroll a sequence of
  tokens. The token loop is \<open>bool ok = true; while (ok) { ...; ok = (NextTokenInUnroll() >= 0); }\<close>:
  it handles the current token before it asks for the next one, so an unroll is its first
  token and the tokens after it. The fields of a token are named after the reader's
  accessors.
\<close>

record token =
  CurrentTokenNumberInSentence :: int
  CurrentTokenWord :: int
  CurrentTokenDiscount :: double
  CurrentTokenLabel :: int

type_synonym unroll = "token \<times> token list"
type_synonym sentence = "unroll list"
type_synonym book = "sentence list"

text \<open>An entry of \<open>m_vocabularyStorage\<close>, with the fields the functions use
  (\<open>.word\<close>, \<open>.cn\<close>, \<open>.classIndex\<close>).\<close>

record VocabWord =
  word_vw :: string
  cn :: int
  classIndex :: int

text \<open>What the program prints as a diagnostic and what it persists. The progress and
  timing records, the debug listing of tokens and the accuracy line are not modelled.\<close>

datatype event =
    ClassFilesNotImplemented
  | NumberOfClassesExceedsVocabularySize
  | NumericalErrorInfiniteLogLikelihood
  | LogProbSentenceMismatch double double
  | RestoredTheWeightsFromPreviousIteration
  | SaveThisModel
  | SaveRnnModelToFile
  | SaveWordEmbeddings

text \<open>
  The members of the object that the functions of \<open>RnnDependencyTreeLib.cpp\<close> read or
  write. The weights are of a type \<open>'w\<close> and the corpus readers of a type \<open>'c\<close>: the
  functions only copy them or hand them to collaborators. \<open>events\<close> is the sequence of
  events so far. Counters are unbounded integers (a counter past the range of its C++
  type is outside the model).
\<close>

record ('w, 'c) RnnTreeLM =
  m_numTrainWords :: int
  m_corpusVocabulary :: 'c
  m_corpusTrain :: 'c
  m_corpusValidTest :: 'c
  m_typeOfDepLabels :: int
  m_vocabularyStorage :: "VocabWord list"
  m_mapWord2Index :: "string \<rightharpoonup> int"
  m_mapIndex2Word :: "int \<rightharpoonup> string"
  m_mapLabel2Index :: "string \<rightharpoonup> int"
  m_usesClassFile :: bool
  m_featureGammaCoeff :: double
  m_numOutputClasses :: int
  m_wordCounter :: int
  m_currentPosTrainFile :: int
  m_initialLearningRate :: double
  m_learningRate :: double
  m_minLogProbaImprovement :: double
  m_doStartReducingLearningRate :: bool
  m_iteration :: int
  m_state :: RnnState
  m_stateBackup :: RnnState
  m_weights :: 'w
  m_weightsBackup :: 'w
  m_numBpttSteps :: int
  m_bpttBlockSize :: int
  m_bpttVectors :: RnnBptt
  events :: "event list"

text \<open>What a call of \<open>BackPropagateErrorsThenOneStepGradientDescent\<close> leaves behind.\<close>

record 'w sgd_result =
  sgd_learningRate :: double
  sgd_weights :: 'w
  sgd_state :: RnnState
  sgd_bpttVectors :: RnnBptt

text \<open>
  The functions of the base class and of the corpus reader that the file calls and does
  not define are parameters of the model, each with the type its call shows:
  \<^item> the sizes \<open>GetFeatureSize\<close>, \<open>GetVocabularySize\<close>, \<open>GetHiddenSize\<close>, fixed during a
    run;
  \<^item> a method that is handed an \<open>RnnState\<close> reads the object and gives the new
    \<open>RnnState\<close>; \<open>ForwardPropagateWordHistory\<close> is handed \<open>lastWord\<close> too and gives its
    new value with the state;
  \<^item> \<open>BackPropagateErrorsThenOneStepGradientDescent\<close> reads the object and gives the
    learning rate, weights, state and BPTT window it leaves;
  \<^item> \<open>AddWordToVocabulary\<close> reads the object and gives an index with the vocabulary
    vector and the two maps between words and indices that it leaves;
    \<open>SearchWordInVocabulary\<close> gives an index;
  \<^item> of a corpus reader: \<open>ReadVocabulary\<close> (a word count and the reader it leaves),
    \<open>FilterSortVocabulary\<close> and \<open>CopyVocabulary\<close> (the reader they leave, given their
    argument), \<open>NumWords\<close>, \<open>NumLabels\<close>, the tables \<open>vocabularyReverse\<close>,
    \<open>labelsReverse\<close>, \<open>wordCountsDiscounted\<close>, and \<open>Books\<close>: the books that
    \<open>NextBook\<close> and \<open>ReadBook\<close> yield, given \<open>ReadBook\<close>'s argument.
\<close>

record ('w, 'c) collaborators =
  GetFeatureSize :: nat
  GetVocabularySize :: nat
  GetHiddenSize :: nat
  ResetAllRnnActivations :: "('w, 'c) RnnTreeLM \<Rightarrow> RnnState \<Rightarrow> RnnState"
  ResetHiddenRnnStateAndWordHistory :: "('w, 'c) RnnTreeLM \<Rightarrow> RnnState \<Rightarrow> RnnState"
  ForwardPropagateOneStep :: "('w, 'c) RnnTreeLM \<Rightarrow> int \<Rightarrow> int \<Rightarrow> RnnState \<Rightarrow> RnnState"
  ForwardPropagateRecurrentConnectionOnly :: "('w, 'c) RnnTreeLM \<Rightarrow> RnnState \<Rightarrow> RnnState"
  ForwardPropagateWordHistory ::
    "('w, 'c) RnnTreeLM \<Rightarrow> RnnState \<Rightarrow> int \<Rightarrow> int \<Rightarrow> RnnState \<times> int"
  BackPropagateErrorsThenOneStepGradientDescent ::
    "int \<Rightarrow> int \<Rightarrow> ('w, 'c) RnnTreeLM \<Rightarrow> 'w sgd_result"
  AddWordToVocabulary ::
    "string \<Rightarrow> ('w, 'c) RnnTreeLM
       \<Rightarrow> int \<times> VocabWord list \<times> (string \<rightharpoonup> int) \<times> (int \<rightharpoonup> string)"
  SearchWordInVocabulary :: "('w, 'c) RnnTreeLM \<Rightarrow> string \<Rightarrow> int"
  ReadVocabulary :: "bool \<Rightarrow> 'c \<Rightarrow> int \<times> 'c"
  FilterSortVocabulary :: "'c \<Rightarrow> 'c \<Rightarrow> 'c"
  CopyVocabulary :: "'c \<Rightarrow> 'c \<Rightarrow> 'c"
  NumWords :: "'c \<Rightarrow> int"
  NumLabels :: "'c \<Rightarrow> int"
  vocabularyReverse :: "'c \<Rightarrow> int \<Rightarrow> string"
  labelsReverse :: "'c \<Rightarrow> int \<Rightarrow> string"
  wordCountsDiscounted :: "'c \<Rightarrow> int \<Rightarrow> double"
  Books :: "'c \<Rightarrow> bool \<Rightarrow> book list"

text \<open>A method handed the member \<open>m_state\<close>: \<open>F(..., m_state)\<close>.\<close>

definition on_state ::
  "(('w, 'c) RnnTreeLM \<Rightarrow> RnnState \<Rightarrow> RnnState) \<Rightarrow> ('w, 'c) RnnTreeLM \<Rightarrow> ('w, 'c) RnnTreeLM" where
  "on_state F m = m\<lparr>m_state := F m (m_state m)\<rparr>"

section \<open>The vocabulary of labels and the feature layer\<close>

definition SearchLabelInVocabulary :: "('w, 'c) RnnTreeLM \<Rightarrow> string \<Rightarrow> int" where
  "SearchLabelInVocabulary m label =
     (case m_mapLabel2Index m label of None \<Rightarrow> - 1 | Some i \<Rightarrow> i)"

definition ResetFeatureLabelVector :: "('w, 'c) collaborators \<Rightarrow> RnnState \<Rightarrow> RnnState" where
  "ResetFeatureLabelVector X state = state\<lparr>FeatureLayer := replicate (GetFeatureSize X) 0\<rparr>"

definition UpdateFeatureLabelVector ::
  "('w, 'c) collaborators \<Rightarrow> ('w, 'c) RnnTreeLM \<Rightarrow> int \<Rightarrow> RnnState
     \<Rightarrow> ('w, 'c) RnnTreeLM abort + RnnState" where
  "UpdateFeatureLabelVector X m label state =
     (let sizeFeatures = int (GetFeatureSize X) in
      thenE (for_up 0 sizeFeatures
               (\<lambda>a fl. thenE (vget fl a) (\<lambda>x. vset fl a (x * m_featureGammaCoeff m)))
               (FeatureLayer state)) (\<lambda>fl.
      if 0 \<le> label \<and> label < sizeFeatures
      then thenE (vset fl label (Finite 1)) (\<lambda>fl'. Inr (state\<lparr>FeatureLayer := fl'\<rparr>))
      else Inr (state\<lparr>FeatureLayer := fl\<rparr>)))"

section \<open>The steps that training and evaluation share\<close>

text \<open>
  The local variables of the token loops. Both \<open>TrainRnnModel\<close> and \<open>TestRnnModel\<close>
  have \<open>uniqueWordCounter\<close>, \<open>logProbSentence\<close>, \<open>lastWord\<close> and \<open>lastLabel\<close>;
  \<open>TrainRnnModel\<close> adds \<open>trainLogProbability\<close>, \<open>TestRnnModel\<close> adds
  \<open>testLogProbability\<close>, \<open>sentenceLogProbability\<close>, \<open>numUnk\<close> and the vector
  \<open>sentenceScores\<close> of its caller.
\<close>

record token_loop =
  uniqueWordCounter :: int
  logProbSentence :: "int \<rightharpoonup> double"
  lastWord :: int
  lastLabel :: int

record train_loop = token_loop +
  trainLogProbability :: double

record test_loop = token_loop +
  testLogProbability :: double
  sentenceLogProbability :: double
  numUnk :: int
  sentenceScores :: "double list"

text \<open>Lines 270 to 283 of \<open>TrainRnnModel\<close> and 572 to 579 of \<open>TestRnnModel\<close>: the feature
  layer is updated with the last label, and one step of the network predicts the word.\<close>

definition PredictWord ::
  "('w, 'c) collaborators \<Rightarrow> int \<Rightarrow> int \<Rightarrow> int \<Rightarrow> ('w, 'c) RnnTreeLM
     \<Rightarrow> ('w, 'c) RnnTreeLM abort + ('w, 'c) RnnTreeLM" where
  "PredictWord X label lw word m =
     thenE (if m_typeOfDepLabels m = 2
            then UpdateFeatureLabelVector X m label (m_state m)
            else Inr (m_state m)) (\<lambda>s.
     Inr (on_state (\<lambda>m. ForwardPropagateOneStep X m lw word) (m\<lparr>m_state := s\<rparr>)))"

text \<open>Lines 287 to 295 and 583 to 591: the log-probability of the current word.\<close>

definition LogProbabilityWord ::
  "('w, 'c) collaborators \<Rightarrow> int \<Rightarrow> ('w, 'c) RnnTreeLM \<Rightarrow> ('w, 'c) RnnTreeLM abort + double" where
  "LogProbabilityWord X word m =
     thenE (vget (m_vocabularyStorage m) word) (\<lambda>vw.
     let outputNodeClass = classIndex vw + int (GetVocabularySize X) in
     thenE (vget (OutputLayer (m_state m)) outputNodeClass) (\<lambda>condProbaClass.
     thenE (vget (OutputLayer (m_state m)) word) (\<lambda>condProbaWordGivenClass.
     Inr (log10 (condProbaClass * condProbaWordGivenClass)))))"

text \<open>Lines 239 to 243 and 552 to 556: before each unroll the hidden state and the word
  history are reset, and the feature layer is.\<close>

definition BeginUnroll :: "('w, 'c) collaborators \<Rightarrow> ('w, 'c) RnnTreeLM \<Rightarrow> ('w, 'c) RnnTreeLM" where
  "BeginUnroll X m =
     (let m = on_state (ResetHiddenRnnStateAndWordHistory X) m
      in m\<lparr>m_state := ResetFeatureLabelVector X (m_state m)\<rparr>)"

text \<open>Lines 362 to 367 and 627 to 632: the state becomes the previous state and the
  word history is rotated; the result is the object with the new \<open>lastWord\<close>.\<close>

definition AdvanceState ::
  "('w, 'c) collaborators \<Rightarrow> int \<Rightarrow> int \<Rightarrow> ('w, 'c) RnnTreeLM \<Rightarrow> ('w, 'c) RnnTreeLM \<times> int" where
  "AdvanceState X lw word m =
     (let m = on_state (ForwardPropagateRecurrentConnectionOnly X) m;
          (s, lw) = ForwardPropagateWordHistory X m (m_state m) lw word
      in (m\<lparr>m_state := s\<rparr>, lw))"

section \<open>Evaluation: \<open>TestRnnModel\<close>\<close>

text \<open>Lines 581 to 625: the accounting of the current word.\<close>

definition TestAccumulate ::
  "('w, 'c) collaborators \<Rightarrow> token \<Rightarrow> test_loop \<times> ('w, 'c) RnnTreeLM
     \<Rightarrow> ('w, 'c) RnnTreeLM abort + test_loop \<times> ('w, 'c) RnnTreeLM" where
  "TestAccumulate X tok = (\<lambda>(L, m).
     let tokenNumber = CurrentTokenNumberInSentence tok; word = CurrentTokenWord tok in
     if 0 \<le> word \<and> word \<noteq> 1 then
       thenE (LogProbabilityWord X word m) (\<lambda>logProbabilityWord.
       case logProbSentence L tokenNumber of
         None \<Rightarrow>
           Inr (L\<lparr>logProbSentence := (logProbSentence L)(tokenNumber \<mapsto> logProbabilityWord),
                  testLogProbability := testLogProbability L + logProbabilityWord,
                  sentenceLogProbability := sentenceLogProbability L + logProbabilityWord,
                  uniqueWordCounter := uniqueWordCounter L + 1\<rparr>, m)
       | Some stored \<Rightarrow>
           Inr (L, if d_noteq stored logProbabilityWord
                   then m\<lparr>events := events m @ [LogProbSentenceMismatch stored logProbabilityWord]\<rparr>
                   else m))
     else Inr (L\<lparr>numUnk := numUnk L + 1\<rparr>, m))"

text \<open>The body of the token loop, lines 567 to 637.\<close>

definition TestToken ::
  "('w, 'c) collaborators \<Rightarrow> token \<Rightarrow> test_loop \<times> ('w, 'c) RnnTreeLM
     \<Rightarrow> ('w, 'c) RnnTreeLM abort + test_loop \<times> ('w, 'c) RnnTreeLM" where
  "TestToken X tok = (\<lambda>(L, m).
     let word = CurrentTokenWord tok; label = CurrentTokenLabel tok in
     thenE (PredictWord X (lastLabel L) (lastWord L) word m) (\<lambda>m.
     thenE (TestAccumulate X tok (L, m)) (\<lambda>(L, m).
     let (m, lw) = AdvanceState X (lastWord L) word m
     in Inr (L\<lparr>lastWord := lw, lastLabel := label\<rparr>, m))))"

text \<open>An unroll, lines 552 to 638: the state is reset, \<open>lastWord\<close> and \<open>lastLabel\<close> are
  set to 0, and the tokens are handled in turn.\<close>

definition TestUnroll ::
  "('w, 'c) collaborators \<Rightarrow> unroll \<Rightarrow> test_loop \<times> ('w, 'c) RnnTreeLM
     \<Rightarrow> ('w, 'c) RnnTreeLM abort + test_loop \<times> ('w, 'c) RnnTreeLM" where
  "TestUnroll X u = (\<lambda>(L, m).
     for_each (TestToken X) (fst u # snd u) (L\<lparr>lastWord := 0, lastLabel := 0\<rparr>, BeginUnroll X m))"

text \<open>The loop over the unrolls of a sentence, with the variables of the sentence fresh;
  then lines 642 to 645.\<close>

definition TestUnrolls ::
  "('w, 'c) collaborators \<Rightarrow> sentence \<Rightarrow> test_loop \<times> ('w, 'c) RnnTreeLM
     \<Rightarrow> ('w, 'c) RnnTreeLM abort + test_loop \<times> ('w, 'c) RnnTreeLM" where
  "TestUnrolls X unrolls = (\<lambda>(L, m).
     for_each (TestUnroll X) unrolls
       (L\<lparr>logProbSentence := Map.empty, sentenceLogProbability := 0\<rparr>, m))"

definition TestSentence ::
  "('w, 'c) collaborators \<Rightarrow> sentence \<Rightarrow> test_loop \<times> ('w, 'c) RnnTreeLM
     \<Rightarrow> ('w, 'c) RnnTreeLM abort + test_loop \<times> ('w, 'c) RnnTreeLM" where
  "TestSentence X unrolls Lm =
     thenE (TestUnrolls X unrolls Lm) (\<lambda>(L, m).
       Inr (L\<lparr>logProbSentence := Map.empty,
              sentenceScores := sentenceScores L @ [sentenceLogProbability L]\<rparr>, m))"

text \<open>\<open>TestRnnModel\<close> returns \<open>testLogProbability\<close> and leaves \<open>uniqueWordCounter\<close> and
  \<open>sentenceScores\<close> to its caller: the model gives all its local variables at the end,
  with the object. The second argument is the caller's \<open>sentenceScores\<close>.\<close>

definition TestRnnModel ::
  "('w, 'c) collaborators \<Rightarrow> double list \<Rightarrow> ('w, 'c) RnnTreeLM
     \<Rightarrow> ('w, 'c) RnnTreeLM abort + test_loop \<times> ('w, 'c) RnnTreeLM" where
  "TestRnnModel X scores m =
     (let m = on_state (ResetAllRnnActivations X) m;
          L = \<lparr> uniqueWordCounter = 0, logProbSentence = Map.empty, lastWord = 0, lastLabel = 0,
                testLogProbability = 0, sentenceLogProbability = 0, numUnk = 0,
                sentenceScores = scores \<rparr>;
          m = on_state (ForwardPropagateRecurrentConnectionOnly X) m
      in for_each (\<lambda>book. for_each (TestSentence X) book)
           (Books X (m_corpusValidTest m) (m_typeOfDepLabels m = 1)) (L, m))"

section \<open>Training: \<open>TrainRnnModel\<close>\<close>

text \<open>Lines 285 to 307: the accounting of the current word.\<close>

definition TrainAccumulate ::
  "('w, 'c) collaborators \<Rightarrow> token \<Rightarrow> train_loop \<times> ('w, 'c) RnnTreeLM
     \<Rightarrow> ('w, 'c) RnnTreeLM abort + train_loop \<times> ('w, 'c) RnnTreeLM" where
  "TrainAccumulate X tok = (\<lambda>(L, m).
     let tokenNumber = CurrentTokenNumberInSentence tok; word = CurrentTokenWord tok in
     if 0 \<le> word then
       thenE (LogProbabilityWord X word m) (\<lambda>logProbabilityWord.
       let L = (if logProbSentence L tokenNumber = None
                then L\<lparr>logProbSentence := (logProbSentence L)(tokenNumber \<mapsto> logProbabilityWord),
                       trainLogProbability := trainLogProbability L + logProbabilityWord,
                       uniqueWordCounter := uniqueWordCounter L + 1\<rparr>
                else L)
       in Inr (L, m\<lparr>m_wordCounter := m_wordCounter m + 1\<rparr>))
     else Inr (L, m))"

text \<open>Lines 319 to 340: the memory for BPTT is shifted by one time step.\<close>

definition ShiftMemoryForBptt ::
  "('w, 'c) collaborators \<Rightarrow> int \<Rightarrow> ('w, 'c) RnnTreeLM
     \<Rightarrow> ('w, 'c) RnnTreeLM abort + ('w, 'c) RnnTreeLM" where
  "ShiftMemoryForBptt X lw m =
     (if 0 < m_numBpttSteps m then
        let top = m_numBpttSteps m + m_bpttBlockSize m - 1;
            sizeHidden = int (GetHiddenSize X);
            sizeFeature = int (GetFeatureSize X);
            v = m_bpttVectors m
        in
        thenE (for_down top (\<lambda>a h. thenE (vget h (a - 1)) (vset h a)) (History v)) (\<lambda>h.
        thenE (vset h 0 lw) (\<lambda>h.
        thenE (for_down top (\<lambda>a. for_up 0 sizeHidden (\<lambda>b (hl, hg).
                 thenE (vget hl ((a - 1) * sizeHidden + b)) (\<lambda>x.
                 thenE (vset hl (a * sizeHidden + b) x) (\<lambda>hl.
                 thenE (vget hg ((a - 1) * sizeHidden + b)) (\<lambda>y.
                 thenE (vset hg (a * sizeHidden + b) y) (\<lambda>hg. Inr (hl, hg)))))))
               (HiddenLayer_bptt v, HiddenGradient_bptt v)) (\<lambda>(hl, hg).
        thenE (for_down top (\<lambda>a. for_up 0 sizeFeature (\<lambda>b fl.
                 thenE (vget fl ((a - 1) * sizeFeature + b)) (vset fl (a * sizeFeature + b))))
               (FeatureLayer_bptt v)) (\<lambda>fl.
        Inr (m\<lparr>m_bpttVectors := v\<lparr>History := h, HiddenLayer_bptt := hl,
                                   HiddenGradient_bptt := hg, FeatureLayer_bptt := fl\<rparr>\<rparr>)))))
      else Inr m)"

text \<open>Lines 345 to 360: the learning rate is discounted, the error is back-propagated
  with one step of gradient descent, and the learning rate is undiscounted.\<close>

definition DiscountedBackPropagation ::
  "('w, 'c) collaborators \<Rightarrow> int \<Rightarrow> int \<Rightarrow> double \<Rightarrow> ('w, 'c) RnnTreeLM \<Rightarrow> ('w, 'c) RnnTreeLM" where
  "DiscountedBackPropagation X lw word discount m =
     (let alphaBackup = m_learningRate m;
          m = m\<lparr>m_learningRate := m_learningRate m * discount\<rparr>;
          r = BackPropagateErrorsThenOneStepGradientDescent X lw word m;
          m = m\<lparr>m_learningRate := sgd_learningRate r, m_weights := sgd_weights r,
                m_state := sgd_state r, m_bpttVectors := sgd_bpttVectors r\<rparr>
      in m\<lparr>m_learningRate := alphaBackup\<rparr>)"

text \<open>The body of the token loop, lines 254 to 375.\<close>

definition TrainToken ::
  "('w, 'c) collaborators \<Rightarrow> token \<Rightarrow> train_loop \<times> ('w, 'c) RnnTreeLM
     \<Rightarrow> ('w, 'c) RnnTreeLM abort + train_loop \<times> ('w, 'c) RnnTreeLM" where
  "TrainToken X tok = (\<lambda>(L, m).
     let word = CurrentTokenWord tok; discount = CurrentTokenDiscount tok;
         label = CurrentTokenLabel tok in
     thenE (PredictWord X (lastLabel L) (lastWord L) word m) (\<lambda>m.
     thenE (TrainAccumulate X tok (L, m)) (\<lambda>(L, m).
     if d_noteq (trainLogProbability L) (trainLogProbability L)
     then Inl (ReturnFalse (m\<lparr>events := events m @ [NumericalErrorInfiniteLogLikelihood]\<rparr>))
     else
       thenE (ShiftMemoryForBptt X (lastWord L) m) (\<lambda>m.
       let m = DiscountedBackPropagation X (lastWord L) word discount m;
           (m, lw) = AdvanceState X (lastWord L) word m
       in Inr (L\<lparr>lastWord := lw, lastLabel := label\<rparr>, m)))))"

text \<open>An unroll, lines 239 to 376.\<close>

definition TrainUnroll ::
  "('w, 'c) collaborators \<Rightarrow> unroll \<Rightarrow> train_loop \<times> ('w, 'c) RnnTreeLM
     \<Rightarrow> ('w, 'c) RnnTreeLM abort + train_loop \<times> ('w, 'c) RnnTreeLM" where
  "TrainUnroll X u = (\<lambda>(L, m).
     for_each (TrainToken X) (fst u # snd u) (L\<lparr>lastWord := 0, lastLabel := 0\<rparr>, BeginUnroll X m))"

definition TrainSentence ::
  "('w, 'c) collaborators \<Rightarrow> sentence \<Rightarrow> train_loop \<times> ('w, 'c) RnnTreeLM
     \<Rightarrow> ('w, 'c) RnnTreeLM abort + train_loop \<times> ('w, 'c) RnnTreeLM" where
  "TrainSentence X unrolls = (\<lambda>(L, m).
     for_each (TrainUnroll X) unrolls (L\<lparr>logProbSentence := Map.empty\<rparr>, m))"

text \<open>Lines 200 to 407: one pass over the books of the training corpus.\<close>

definition TrainEpoch ::
  "('w, 'c) collaborators \<Rightarrow> ('w, 'c) RnnTreeLM
     \<Rightarrow> ('w, 'c) RnnTreeLM abort + train_loop \<times> ('w, 'c) RnnTreeLM" where
  "TrainEpoch X m =
     (let L = \<lparr> uniqueWordCounter = 0, logProbSentence = Map.empty, lastWord = 0, lastLabel = 0,
                trainLogProbability = 0 \<rparr>;
          m = on_state (ResetAllRnnActivations X) m
      in for_each (\<lambda>book. for_each (TrainSentence X) book)
           (Books X (m_corpusTrain m) (m_typeOfDepLabels m = 1)) (L, m))"

text \<open>Lines 464 to 474.\<close>

definition CheckpointOrRollback ::
  "double \<Rightarrow> double \<Rightarrow> ('w, 'c) RnnTreeLM \<Rightarrow> ('w, 'c) RnnTreeLM" where
  "CheckpointOrRollback validLogProbability lastValidLogProbability m =
     (if d_less validLogProbability lastValidLogProbability
      then m\<lparr>m_weights := m_weightsBackup m, m_state := m_stateBackup m,
             events := events m @ [RestoredTheWeightsFromPreviousIteration]\<rparr>
      else m\<lparr>m_weightsBackup := m_weights m, m_stateBackup := m_state m,
             events := events m @ [SaveThisModel]\<rparr>)"

text \<open>How an iteration of \<open>while (loopEpochs)\<close> ends: the loop goes on, with the object
  and the new value of \<open>lastValidLogProbability\<close>, or it is left.\<close>

datatype ('w, 'c) epoch_end =
    NextEpoch "('w, 'c) RnnTreeLM" double
  | Converged "('w, 'c) RnnTreeLM"

fun epoch_end_model :: "('w, 'c) epoch_end \<Rightarrow> ('w, 'c) RnnTreeLM" where
  "epoch_end_model (NextEpoch m validLogProbability) = m"
| "epoch_end_model (Converged m) = m"

text \<open>Lines 489 to 500, reached with \<open>loopEpochs\<close> true.\<close>

definition ContinueTraining ::
  "double \<Rightarrow> ('w, 'c) RnnTreeLM \<Rightarrow> ('w, 'c) epoch_end" where
  "ContinueTraining validLogProbability m =
     (let m = (if m_doStartReducingLearningRate m
               then m\<lparr>m_learningRate := d_div (m_learningRate m) (Finite 2)\<rparr> else m)
      in NextEpoch (m\<lparr>m_iteration := m_iteration m + 1,
                       events := events m @ [SaveRnnModelToFile, SaveWordEmbeddings]\<rparr>)
           validLogProbability)"

text \<open>Lines 459 to 500: the end of an epoch, after the validation.\<close>

definition EndOfEpoch ::
  "double \<Rightarrow> double \<Rightarrow> ('w, 'c) RnnTreeLM \<Rightarrow> ('w, 'c) epoch_end" where
  "EndOfEpoch validLogProbability lastValidLogProbability m =
     (let m = m\<lparr>m_wordCounter := 0, m_currentPosTrainFile := 0\<rparr>;
          m = CheckpointOrRollback validLogProbability lastValidLogProbability m
      in if d_less (validLogProbability * m_minLogProbaImprovement m) lastValidLogProbability
         then if \<not> m_doStartReducingLearningRate m
              then ContinueTraining validLogProbability (m\<lparr>m_doStartReducingLearningRate := True\<rparr>)
              else Converged (m\<lparr>events := events m @ [SaveRnnModelToFile, SaveWordEmbeddings]\<rparr>)
         else ContinueTraining validLogProbability m)"

text \<open>One iteration of \<open>while (loopEpochs)\<close>: the training pass, the validation (into a
  fresh \<open>sentenceScores\<close>) and the end of the epoch.\<close>

definition TrainAndValidate ::
  "('w, 'c) collaborators \<Rightarrow> ('w, 'c) RnnTreeLM
     \<Rightarrow> ('w, 'c) RnnTreeLM abort + double \<times> ('w, 'c) RnnTreeLM" where
  "TrainAndValidate X m =
     thenE (TrainEpoch X m) (\<lambda>(L, m).
     thenE (TestRnnModel X [] m) (\<lambda>(T, m). Inr (testLogProbability T, m)))"

definition EpochIteration ::
  "('w, 'c) collaborators \<Rightarrow> double \<Rightarrow> ('w, 'c) RnnTreeLM
     \<Rightarrow> ('w, 'c) RnnTreeLM abort + ('w, 'c) epoch_end" where
  "EpochIteration X lastValidLogProbability m =
     thenE (TrainAndValidate X m) (\<lambda>(validLogProbability, m).
       Inr (EndOfEpoch validLogProbability lastValidLogProbability m))"

text \<open>The loop \<open>while (loopEpochs)\<close> may run for ever; the model runs at most \<open>fuel\<close>
  iterations of it, and \<open>None\<close> says that more are needed. \<open>Some (Inr m)\<close> is
  \<open>return true\<close> with the object in state \<open>m\<close>.\<close>

fun TrainLoop ::
  "('w, 'c) collaborators \<Rightarrow> nat \<Rightarrow> double \<Rightarrow> ('w, 'c) RnnTreeLM
     \<Rightarrow> (('w, 'c) RnnTreeLM abort + ('w, 'c) RnnTreeLM) option" where
  "TrainLoop X 0 lastValidLogProbability m = None"
| "TrainLoop X (Suc fuel) lastValidLogProbability m =
     (case EpochIteration X lastValidLogProbability m of
        Inl e \<Rightarrow> Some (Inl e)
      | Inr (Converged m') \<Rightarrow> Some (Inr m')
      | Inr (NextEpoch m' validLogProbability) \<Rightarrow> TrainLoop X fuel validLogProbability m')"

text \<open>Lines 175 to 198, then the loop. The labels that \<open>LoadCorrectSentenceLabels\<close> loads
  are read only by the accuracy line, and the log file only receives the progress records:
  both are left out.\<close>

definition TrainRnnModel ::
  "('w, 'c) collaborators \<Rightarrow> nat \<Rightarrow> ('w, 'c) RnnTreeLM
     \<Rightarrow> (('w, 'c) RnnTreeLM abort + ('w, 'c) RnnTreeLM) option" where
  "TrainRnnModel X fuel m =
     (let lastValidLogProbability = Finite (- (10 ^ 37));
          m = m\<lparr>m_wordCounter := m_currentPosTrainFile m,
                m_initialLearningRate := m_learningRate m\<rparr>;
          m = (if int (GetVocabularySize X) < m_numOutputClasses m
               then m\<lparr>events := events m @ [NumberOfClassesExceedsVocabularySize]\<rparr> else m)
      in TrainLoop X fuel lastValidLogProbability m)"

section \<open>Entropy and perplexity\<close>

text \<open>Modelled from the spec: \<open>ExponentiateBase10\<close> is not defined in the files at hand;
  the perplexity is \<open>10^(-logProb/uniqueWordCount)\<close>, so it is the power of ten.\<close>

fun ExponentiateBase10 :: "double \<Rightarrow> double" where
  "ExponentiateBase10 (Finite a) = Finite (10 powr a)"
| "ExponentiateBase10 PosInf = PosInf"
| "ExponentiateBase10 NegInf = Finite 0"
| "ExponentiateBase10 NaN = NaN"

text \<open>Lines 410 to 412 (and 383 to 386).\<close>

definition trainEntropy :: "double \<Rightarrow> int \<Rightarrow> double" where
  "trainEntropy trainLogProbability' uniqueWordCounter' =
     d_div (d_div (- trainLogProbability') (log10 (double_of_int 2)))
       (double_of_int uniqueWordCounter')"

definition trainPerplexity :: "double \<Rightarrow> int \<Rightarrow> double" where
  "trainPerplexity trainLogProbability' uniqueWordCounter' =
     ExponentiateBase10 (d_div (- trainLogProbability') (double_of_int uniqueWordCounter'))"

text \<open>Lines 434 to 439.\<close>

definition validPerplexity :: "double \<Rightarrow> int \<Rightarrow> double" where
  "validPerplexity validLogProbability validWordCounter =
     (if validWordCounter = 0 then double_of_int 0
      else ExponentiateBase10 (d_div (- validLogProbability) (double_of_int validWordCounter)))"

definition validEntropy :: "double \<Rightarrow> int \<Rightarrow> double" where
  "validEntropy validLogProbability validWordCounter =
     (if validWordCounter = 0 then double_of_int 0
      else d_div (d_div (- validLogProbability) (log10 (double_of_int 2)))
             (double_of_int validWordCounter))"

section \<open>The vocabulary: \<open>LearnVocabularyFromTrainFile\<close>\<close>

text \<open>\<open>(int)round(count)\<close>: \<open>round\<close> rounds halves away from zero; the conversion of a
  value outside the range of a 32-bit \<open>int\<close>, or of no number, is undefined.\<close>

fun int_of_round :: "double \<Rightarrow> 'm abort + int" where
  "int_of_round (Finite a) =
     (let r = (if 0 \<le> a then \<lfloor>a + 1 / 2\<rfloor> else - \<lfloor>- a + 1 / 2\<rfloor>)
      in if - (2 ^ 31) \<le> r \<and> r < 2 ^ 31 then Inr r else Inl UndefinedBehaviour)"
| "int_of_round d = Inl UndefinedBehaviour"

text \<open>What a call of \<open>AddWordToVocabulary\<close> leaves is put into the object.\<close>

definition put_vocabulary ::
  "VocabWord list \<times> (string \<rightharpoonup> int) \<times> (int \<rightharpoonup> string) \<Rightarrow> ('w, 'c) RnnTreeLM
     \<Rightarrow> ('w, 'c) RnnTreeLM" where
  "put_vocabulary v m =
     m\<lparr>m_vocabularyStorage := fst v, m_mapWord2Index := fst (snd v),
       m_mapIndex2Word := snd (snd v)\<rparr>"

text \<open>Lines 104 to 118: the body of the loop over the words of the corpus.\<close>

definition CopyWord ::
  "('w, 'c) collaborators \<Rightarrow> int \<Rightarrow> ('w, 'c) RnnTreeLM
     \<Rightarrow> ('w, 'c) RnnTreeLM abort + ('w, 'c) RnnTreeLM" where
  "CopyWord X k m =
     (let word = vocabularyReverse X (m_corpusTrain m) k;
          index = SearchWordInVocabulary X m word;
          (index, m) = (if index = - 1
                        then (let (i, v) = AddWordToVocabulary X word m in (i, put_vocabulary v m))
                        else (index, m));
          count = wordCountsDiscounted X (m_corpusTrain m) k
      in thenE (int_of_round count) (\<lambda>c.
         thenE (vget (m_vocabularyStorage m) index) (\<lambda>vw.
         thenE (vset (m_vocabularyStorage m) index (vw\<lparr>cn := c\<rparr>)) (\<lambda>storage.
         Inr (m\<lparr>m_vocabularyStorage := storage,
                m_mapWord2Index := (m_mapWord2Index m)(word \<mapsto> index),
                m_mapIndex2Word := (m_mapIndex2Word m)(index \<mapsto> word)\<rparr>)))))"

text \<open>Lines 124 to 131: the body of the loop over the labels, with its counter
  \<open>index\<close>.\<close>

definition CopyLabel ::
  "('w, 'c) collaborators \<Rightarrow> int \<Rightarrow> int \<times> ('w, 'c) RnnTreeLM
     \<Rightarrow> ('w, 'c) RnnTreeLM abort + int \<times> ('w, 'c) RnnTreeLM" where
  "CopyLabel X k = (\<lambda>(index, m).
     let label = labelsReverse X (m_corpusTrain m) k in
     if SearchLabelInVocabulary m label = - 1
     then Inr (index + 1, m\<lparr>m_mapLabel2Index := (m_mapLabel2Index m)(label \<mapsto> index)\<rparr>)
     else Inr (index, m))"

text \<open>\<open>Inr m\<close> is \<open>return true\<close> with the object in state \<open>m\<close>.\<close>

definition LearnVocabularyFromTrainFile ::
  "('w, 'c) collaborators \<Rightarrow> ('w, 'c) RnnTreeLM
     \<Rightarrow> ('w, 'c) RnnTreeLM abort + ('w, 'c) RnnTreeLM" where
  "LearnVocabularyFromTrainFile X m =
     (let (n, cv) = ReadVocabulary X (m_typeOfDepLabels m = 1) (m_corpusVocabulary m);
          m = m\<lparr>m_numTrainWords := n, m_corpusVocabulary := cv\<rparr>;
          m = m\<lparr>m_corpusTrain := FilterSortVocabulary X (m_corpusTrain m) (m_corpusVocabulary m)\<rparr>;
          m = m\<lparr>m_vocabularyStorage := [], m_mapWord2Index := Map.empty,
                m_mapIndex2Word := Map.empty\<rparr>;
          m = m\<lparr>m_mapLabel2Index := Map.empty\<rparr>
      in if m_usesClassFile m
         then Inl (ReturnFalse (m\<lparr>events := events m @ [ClassFilesNotImplemented]\<rparr>))
         else
           let m = put_vocabulary (snd (AddWordToVocabulary X ''</s>'' m)) m in
           thenE (for_up 0 (NumWords X (m_corpusTrain m)) (CopyWord X) m) (\<lambda>m.
           thenE (for_up 0 (NumLabels X (m_corpusTrain m)) (CopyLabel X) (0, m)) (\<lambda>(index, m).
           Inr (m\<lparr>m_corpusValidTest :=
                    CopyVocabulary X (m_corpusValidTest m) (m_corpusTrain m)\<rparr>))))"

section \<open>Notions of the statements\<close>

text \<open>The members that neither a training pass nor an evaluation writes, among those
  that the end of an epoch reads or writes.\<close>

definition pass_frame :: "('w, 'c) RnnTreeLM \<Rightarrow> double \<times> 'w \<times> RnnState" where
  "pass_frame m = (m_learningRate m, m_weightsBackup m, m_stateBackup m)"

text \<open>The sum, over the token positions that a map of a sentence holds, of the
  log-probability stored for each position.\<close>

definition sum_of_stored :: "(int \<rightharpoonup> double) \<Rightarrow> double" where
  "sum_of_stored M = (\<Sum>p\<in>dom M. the (M p))"

text \<open>The account of a sentence in evaluation, from the counters \<open>u\<close> and \<open>t\<close> and the
  scores \<open>sc\<close> at its start: the map of the sentence is finite, the log-probability of
  the sentence is the sum of what the map stores, and the accumulated log-probability and
  the counter have grown by that sum and by the number of positions.\<close>

definition sentence_account :: "int \<Rightarrow> double \<Rightarrow> double list \<Rightarrow> test_loop \<Rightarrow> bool" where
  "sentence_account u t sc L \<longleftrightarrow>
     finite (dom (logProbSentence L))
   \<and> sentenceLogProbability L = sum_of_stored (logProbSentence L)
   \<and> testLogProbability L = t + sum_of_stored (logProbSentence L)
   \<and> uniqueWordCounter L = u + int (card (dom (logProbSentence L)))
   \<and> sentenceScores L = sc"

text \<open>A value of the feature layer that lies in the interval from 0 to 1.\<close>

fun in_unit_interval :: "double \<Rightarrow> bool" where
  "in_unit_interval (Finite x) = (0 \<le> x \<and> x \<le> 1)"
| "in_unit_interval d = False"

section \<open>An example\<close>

text \<open>
  A small instance on which the functions are run: a vocabulary of three words (\<open></s>\<close>,
  \<open><unk>\<close> and one more), one class, two labels, and a corpus of one book with one
  sentence of two unrolls; the second unroll visits the position 0 again. The weights are
  a number that every back-propagation raises by one. The network gives the class the
  probability 1 and the words 1 and 2 the probability 1/10, but the word 2 the
  probability 0 once the weights are above 3. The example's back-propagation leaves a
  learning rate of 0 behind.
\<close>

definition example_token :: "int \<Rightarrow> int \<Rightarrow> token" where
  "example_token position word =
     \<lparr> CurrentTokenNumberInSentence = position, CurrentTokenWord = word,
       CurrentTokenDiscount = Finite (1 / 2), CurrentTokenLabel = 1 \<rparr>"

definition example_sentence :: sentence where
  "example_sentence = [(example_token 0 2, [example_token 1 1]), (example_token 0 2, [])]"

definition example_book :: book where
  "example_book = [example_sentence]"

definition example_collaborators :: "(int, book list) collaborators" where
  "example_collaborators =
     \<lparr> GetFeatureSize = 2, GetVocabularySize = 3, GetHiddenSize = 1,
       ResetAllRnnActivations = (\<lambda>m s. s),
       ResetHiddenRnnStateAndWordHistory = (\<lambda>m s. s),
       ForwardPropagateOneStep = (\<lambda>m lw word s.
          s\<lparr>OutputLayer := [Finite 1, Finite (1 / 10),
                              if m_weights m \<le> 3 then Finite (1 / 10) else Finite 0,
                              Finite 1]\<rparr>),
       ForwardPropagateRecurrentConnectionOnly = (\<lambda>m s. s),
       ForwardPropagateWordHistory = (\<lambda>m s lw word. (s, word)),
       BackPropagateErrorsThenOneStepGradientDescent = (\<lambda>lw word m.
          \<lparr> sgd_learningRate = Finite 0, sgd_weights = m_weights m + 1,
            sgd_state = m_state m, sgd_bpttVectors = m_bpttVectors m \<rparr>),
       AddWordToVocabulary = (\<lambda>word m.
          (int (length (m_vocabularyStorage m)),
           m_vocabularyStorage m @ [\<lparr> word_vw = word, cn = 0, classIndex = 0 \<rparr>],
           (m_mapWord2Index m)(word \<mapsto> int (length (m_vocabularyStorage m))),
           (m_mapIndex2Word m)(int (length (m_vocabularyStorage m)) \<mapsto> word))),
       SearchWordInVocabulary =
         (\<lambda>m word. case m_mapWord2Index m word of None \<Rightarrow> - 1 | Some i \<Rightarrow> i),
       ReadVocabulary = (\<lambda>b c. (3, c)),
       FilterSortVocabulary = (\<lambda>c c'. c),
       CopyVocabulary = (\<lambda>c c'. c'),
       NumWords = (\<lambda>c. 1),
       NumLabels = (\<lambda>c. 1),
       vocabularyReverse = (\<lambda>c k. ''the''),
       labelsReverse = (\<lambda>c k. ''nsubj''),
       wordCountsDiscounted = (\<lambda>c k. Finite (5 / 2)),
       Books = (\<lambda>c b. c) \<rparr>"

definition example_state :: RnnState where
  "example_state = RnnState_new 3 1 2 1 0 0"

definition example_model :: "(int, book list) RnnTreeLM" where
  "example_model =
     \<lparr> m_numTrainWords = 0, m_corpusVocabulary = [], m_corpusTrain = [example_book],
       m_corpusValidTest = [example_book],
       m_typeOfDepLabels = 2,
       m_vocabularyStorage =
         [\<lparr> word_vw = ''</s>'', cn = 0, classIndex = 0 \<rparr>,
          \<lparr> word_vw = ''<unk>'', cn = 0, classIndex = 0 \<rparr>,
          \<lparr> word_vw = ''the'', cn = 0, classIndex = 0 \<rparr>],
       m_mapWord2Index = [''</s>'' \<mapsto> 0, ''<unk>'' \<mapsto> 1, ''the'' \<mapsto> 2],
       m_mapIndex2Word = [0 \<mapsto> ''</s>'', 1 \<mapsto> ''<unk>'', 2 \<mapsto> ''the''],
       m_mapLabel2Index = [''root'' \<mapsto> 0, ''nsubj'' \<mapsto> 1],
       m_usesClassFile = False,
       m_featureGammaCoeff = Finite (1 / 2),
       m_numOutputClasses = 1,
       m_wordCounter = 0, m_currentPosTrainFile = 0,
       m_initialLearningRate = Finite 1, m_learningRate = Finite 1,
       m_minLogProbaImprovement = Finite (1003 / 1000),
       m_doStartReducingLearningRate = False,
       m_iteration = 0,
       m_state = example_state,
       m_stateBackup = example_state,
       m_weights = 0, m_weightsBackup = 0,
       m_numBpttSteps = 1, m_bpttBlockSize = 1,
       m_bpttVectors = RnnBptt_new 3 1 2 1 1,
       events = [] \<rparr>"

definition example_train_loop :: train_loop where
  "example_train_loop =
     \<lparr> uniqueWordCounter = 0, logProbSentence = Map.empty, lastWord = 0, lastLabel = 0,
       trainLogProbability = 0 \<rparr>"

definition example_test_loop :: test_loop where
  "example_test_loop =
     \<lparr> uniqueWordCounter = 0, logProbSentence = Map.empty, lastWord = 0, lastLabel = 0,
       testLogProbability = 0, sentenceLogProbability = 0, numUnk = 0, sentenceScores = [] \<rparr>"

section \<open>Runs that go on, and what a pass leaves as it is\<close>

lemma thenE_Inr_iff: "thenE x f = Inr y \<longleftrightarrow> (\<exists>a. x = Inr a \<and> f a = Inr y)"
  by (cases x) simp_all

lemma for_each_append:
  "for_each f (xs @ ys) s = thenE (for_each f xs s) (for_each f ys)"
  by (induction xs arbitrary: s) (simp_all split: sum.splits)

lemma for_each_frame:
  assumes "\<And>x L m L' m'. f x (L, m) = Inr (L', m') \<Longrightarrow> g m' = g m"
  shows "for_each f xs (L, m) = Inr (L', m') \<Longrightarrow> g m' = g m"
proof (induction xs arbitrary: L m)
  case Nil
  then show ?case by simp
next
  case (Cons x xs)
  then obtain L1 m1 where s: "f x (L, m) = Inr (L1, m1)" "for_each f xs (L1, m1) = Inr (L', m')"
    by (auto split: sum.splits)
  from Cons.IH[OF s(2)] assms[OF s(1)] show ?case by simp
qed

lemma for_each_failure:
  "for_each f xs s = Inr s' \<Longrightarrow> f x s' = Inl e \<Longrightarrow> for_each f (xs @ x # ys) s = Inl e"
  by (simp add: for_each_append)

lemma PredictWord_frame:
  "PredictWord X label lw word m = Inr m' \<Longrightarrow> pass_frame m' = pass_frame m"
  by (auto simp: PredictWord_def thenE_Inr_iff on_state_def pass_frame_def split: if_splits)

lemma PredictWord_events:
  "PredictWord X label lw word m = Inr m' \<Longrightarrow> events m' = events m"
  by (auto simp: PredictWord_def thenE_Inr_iff on_state_def split: if_splits)

lemma AdvanceState_frame:
  "pass_frame (fst (AdvanceState X lw word m)) = pass_frame m"
  by (simp add: AdvanceState_def Let_def on_state_def pass_frame_def split_def)

lemma AdvanceState_events:
  "events (fst (AdvanceState X lw word m)) = events m"
  by (simp add: AdvanceState_def Let_def on_state_def split_def)

lemma ShiftMemoryForBptt_frame:
  "ShiftMemoryForBptt X lw m = Inr m' \<Longrightarrow> pass_frame m' = pass_frame m"
  by (auto simp: ShiftMemoryForBptt_def Let_def thenE_Inr_iff pass_frame_def split: if_splits)

lemma DiscountedBackPropagation_learningRate:
  "m_learningRate (DiscountedBackPropagation X lw word discount m) = m_learningRate m"
  by (simp add: DiscountedBackPropagation_def Let_def)

lemma DiscountedBackPropagation_frame:
  "pass_frame (DiscountedBackPropagation X lw word discount m) = pass_frame m"
  by (simp add: DiscountedBackPropagation_def Let_def pass_frame_def)

lemma TrainAccumulate_frame:
  "TrainAccumulate X tok (L, m) = Inr (L', m') \<Longrightarrow> pass_frame m' = pass_frame m"
  by (auto simp: TrainAccumulate_def Let_def thenE_Inr_iff pass_frame_def split: if_splits)

lemma TrainToken_InrE:
  assumes "TrainToken X tok (L, m) = Inr (L', m')"
  obtains m1 L2 m2 m3 where
    "PredictWord X (lastLabel L) (lastWord L) (CurrentTokenWord tok) m = Inr m1"
    "TrainAccumulate X tok (L, m1) = Inr (L2, m2)"
    "\<not> d_noteq (trainLogProbability L2) (trainLogProbability L2)"
    "ShiftMemoryForBptt X (lastWord L2) m2 = Inr m3"
    "m' = fst (AdvanceState X (lastWord L2) (CurrentTokenWord tok)
          (DiscountedBackPropagation X (lastWord L2) (CurrentTokenWord tok) (CurrentTokenDiscount tok) m3))"
    "L' = L2\<lparr>lastWord := snd (AdvanceState X (lastWord L2) (CurrentTokenWord tok)
          (DiscountedBackPropagation X (lastWord L2) (CurrentTokenWord tok) (CurrentTokenDiscount tok) m3)),
          lastLabel := CurrentTokenLabel tok\<rparr>"
  using assms
  by (auto simp: TrainToken_def Let_def thenE_Inr_iff split_def split: if_splits)

lemma TrainToken_frame:
  assumes "TrainToken X tok (L, m) = Inr (L', m')"
  shows "pass_frame m' = pass_frame m"
proof -
  from assms obtain m1 L2 m2 m3 where
    p: "PredictWord X (lastLabel L) (lastWord L) (CurrentTokenWord tok) m = Inr m1" and
    a: "TrainAccumulate X tok (L, m1) = Inr (L2, m2)" and
    s: "ShiftMemoryForBptt X (lastWord L2) m2 = Inr m3" and
    d: "m' = fst (AdvanceState X (lastWord L2) (CurrentTokenWord tok)
          (DiscountedBackPropagation X (lastWord L2) (CurrentTokenWord tok) (CurrentTokenDiscount tok) m3))"
    by (rule TrainToken_InrE)
  show ?thesis
    using PredictWord_frame[OF p] TrainAccumulate_frame[OF a] ShiftMemoryForBptt_frame[OF s]
    by (simp add: d AdvanceState_frame DiscountedBackPropagation_frame)
qed

lemma BeginUnroll_frame: "pass_frame (BeginUnroll X m) = pass_frame m"
  by (simp add: BeginUnroll_def Let_def on_state_def pass_frame_def)

lemma TrainUnroll_frame:
  assumes "TrainUnroll X u (L, m) = Inr (L', m')"
  shows "pass_frame m' = pass_frame m"
proof -
  from assms have "for_each (TrainToken X) (fst u # snd u)
      (L\<lparr>lastWord := 0, lastLabel := 0\<rparr>, BeginUnroll X m) = Inr (L', m')"
    by (simp add: TrainUnroll_def)
  from for_each_frame[where g = pass_frame and f = "TrainToken X", OF TrainToken_frame this]
  show ?thesis by (simp add: BeginUnroll_frame)
qed

lemma TrainSentence_frame:
  "TrainSentence X us (L, m) = Inr (L', m') \<Longrightarrow> pass_frame m' = pass_frame m"
  unfolding TrainSentence_def
  by (simp, erule for_each_frame[where g = pass_frame and f = "TrainUnroll X", OF TrainUnroll_frame, rotated])

lemma TrainBook_frame:
  "for_each (TrainSentence X) book (L, m) = Inr (L', m') \<Longrightarrow> pass_frame m' = pass_frame m"
  by (erule for_each_frame[where g = pass_frame and f = "TrainSentence X", OF TrainSentence_frame, rotated])

lemma TrainEpoch_frame:
  "TrainEpoch X m = Inr (L', m') \<Longrightarrow> pass_frame m' = pass_frame m"
proof -
  assume a: "TrainEpoch X m = Inr (L', m')"
  then obtain L0 bs where
    "for_each (\<lambda>book. for_each (TrainSentence X) book) bs (L0, on_state (ResetAllRnnActivations X) m) = Inr (L', m')"
    by (auto simp: TrainEpoch_def Let_def)
  from for_each_frame[where g = pass_frame and f = "\<lambda>book. for_each (TrainSentence X) book", OF TrainBook_frame this]
  show ?thesis by (simp add: pass_frame_def on_state_def)
qed


section \<open>The accounting of a token in evaluation\<close>

lemma for_each_invariant:
  assumes "\<And>x s s'. f x s = Inr s' \<Longrightarrow> P s \<Longrightarrow> P s'"
  shows "for_each f xs s = Inr s' \<Longrightarrow> P s \<Longrightarrow> P s'"
proof (induction xs arbitrary: s)
  case Nil
  then show ?case by simp
next
  case (Cons x xs)
  then obtain s1 where s: "f x s = Inr s1" "for_each f xs s1 = Inr s'"
    by (auto split: sum.splits)
  from Cons.IH[OF s(2)] assms[OF s(1) Cons.prems(2)] show ?case .
qed

lemma TestAccumulate_oov:
  "CurrentTokenWord tok < 0 \<or> CurrentTokenWord tok = 1 \<Longrightarrow>
   TestAccumulate X tok (L, m) = Inr (L\<lparr>numUnk := numUnk L + 1\<rparr>, m)"
  by (auto simp: TestAccumulate_def Let_def)

lemma TestAccumulate_first:
  "0 \<le> CurrentTokenWord tok \<Longrightarrow> CurrentTokenWord tok \<noteq> 1 \<Longrightarrow>
   LogProbabilityWord X (CurrentTokenWord tok) m = Inr lp \<Longrightarrow>
   logProbSentence L (CurrentTokenNumberInSentence tok) = None \<Longrightarrow>
   TestAccumulate X tok (L, m) =
     Inr (L\<lparr>logProbSentence := (logProbSentence L)(CurrentTokenNumberInSentence tok \<mapsto> lp),
            testLogProbability := testLogProbability L + lp,
            sentenceLogProbability := sentenceLogProbability L + lp,
            uniqueWordCounter := uniqueWordCounter L + 1\<rparr>, m)"
  by (simp add: TestAccumulate_def Let_def)

lemma TestAccumulate_revisit:
  "0 \<le> CurrentTokenWord tok \<Longrightarrow> CurrentTokenWord tok \<noteq> 1 \<Longrightarrow>
   LogProbabilityWord X (CurrentTokenWord tok) m = Inr lp \<Longrightarrow>
   logProbSentence L (CurrentTokenNumberInSentence tok) = Some stored \<Longrightarrow>
   TestAccumulate X tok (L, m) =
     Inr (L, if d_noteq stored lp
             then m\<lparr>events := events m @ [LogProbSentenceMismatch stored lp]\<rparr> else m)"
  by (simp add: TestAccumulate_def Let_def)

lemma TestAccumulate_cases:
  assumes "TestAccumulate X tok (L, m) = Inr (L', m')"
  obtains
    (oov) "CurrentTokenWord tok < 0 \<or> CurrentTokenWord tok = 1"
      "L' = L\<lparr>numUnk := numUnk L + 1\<rparr>" "m' = m"
  | (first) lp where "0 \<le> CurrentTokenWord tok" "CurrentTokenWord tok \<noteq> 1"
      "LogProbabilityWord X (CurrentTokenWord tok) m = Inr lp"
      "logProbSentence L (CurrentTokenNumberInSentence tok) = None"
      "L' = L\<lparr>logProbSentence := (logProbSentence L)(CurrentTokenNumberInSentence tok \<mapsto> lp),
            testLogProbability := testLogProbability L + lp,
            sentenceLogProbability := sentenceLogProbability L + lp,
            uniqueWordCounter := uniqueWordCounter L + 1\<rparr>" "m' = m"
  | (revisit) lp stored where "0 \<le> CurrentTokenWord tok" "CurrentTokenWord tok \<noteq> 1"
      "LogProbabilityWord X (CurrentTokenWord tok) m = Inr lp"
      "logProbSentence L (CurrentTokenNumberInSentence tok) = Some stored"
      "L' = L"
      "m' = (if d_noteq stored lp
             then m\<lparr>events := events m @ [LogProbSentenceMismatch stored lp]\<rparr> else m)"
proof (cases "0 \<le> CurrentTokenWord tok \<and> CurrentTokenWord tok \<noteq> 1")
  case False
  then have w: "CurrentTokenWord tok < 0 \<or> CurrentTokenWord tok = 1" by auto
  from assms TestAccumulate_oov[OF w, of X L m]
  have "L' = L\<lparr>numUnk := numUnk L + 1\<rparr>" "m' = m" by simp_all
  with w show ?thesis by (rule oov)
next
  case True
  then have w: "0 \<le> CurrentTokenWord tok" "CurrentTokenWord tok \<noteq> 1" by simp_all
  with assms obtain lp where lp: "LogProbabilityWord X (CurrentTokenWord tok) m = Inr lp"
    by (auto simp: TestAccumulate_def Let_def thenE_Inr_iff)
  show ?thesis
  proof (cases "logProbSentence L (CurrentTokenNumberInSentence tok)")
    case None
    from assms TestAccumulate_first[OF w lp None]
    have "L' = L\<lparr>logProbSentence := (logProbSentence L)(CurrentTokenNumberInSentence tok \<mapsto> lp),
            testLogProbability := testLogProbability L + lp,
            sentenceLogProbability := sentenceLogProbability L + lp,
            uniqueWordCounter := uniqueWordCounter L + 1\<rparr>" "m' = m" by simp_all
    with w lp None show ?thesis by (rule first)
  next
    case (Some stored)
    from assms TestAccumulate_revisit[OF w lp Some]
    have "L' = L" "m' = (if d_noteq stored lp
             then m\<lparr>events := events m @ [LogProbSentenceMismatch stored lp]\<rparr> else m)"
      by simp_all
    with w lp Some show ?thesis by (rule revisit)
  qed
qed

lemma TestToken_InrE:
  assumes "TestToken X tok (L, m) = Inr (L', m')"
  obtains m1 L2 m2 where
    "PredictWord X (lastLabel L) (lastWord L) (CurrentTokenWord tok) m = Inr m1"
    "TestAccumulate X tok (L, m1) = Inr (L2, m2)"
    "m' = fst (AdvanceState X (lastWord L2) (CurrentTokenWord tok) m2)"
    "L' = L2\<lparr>lastWord := snd (AdvanceState X (lastWord L2) (CurrentTokenWord tok) m2),
            lastLabel := CurrentTokenLabel tok\<rparr>"
  using assms
  by (auto simp: TestToken_def Let_def thenE_Inr_iff split_def)

section \<open>The feature layer stays between 0 and 1\<close>

lemma decay_step_in_range:
  "k < length fl \<Longrightarrow>
   thenE (vget fl (int k)) (\<lambda>x. vset fl (int k) (x * g)) = Inr (fl[k := fl ! k * g])"
  by (simp add: vget_def vset_def)

lemma for_up_decay:
  "k \<le> n \<Longrightarrow> n \<le> length fl \<Longrightarrow>
   for_up (int k) (int n) (\<lambda>a fl. thenE (vget fl a) (\<lambda>x. vset fl a (x * g))) fl
     = (Inr (take k fl @ map (\<lambda>x. x * g) (take (n - k) (drop k fl)) @ drop n fl)
          :: 'm abort + double list)"
proof (induction "n - k" arbitrary: k fl)
  case 0
  then show ?case by (subst for_up.simps) simp
next
  case (Suc d)
  then have kn: "k < n" and kl: "k < length fl" by auto
  let ?f = "(\<lambda>a fl. thenE (vget fl a) (\<lambda>x. vset fl a (x * g)))
              :: int \<Rightarrow> double list \<Rightarrow> 'm abort + double list"
  let ?fl = "fl[k := fl ! k * g]"
  have d: "d = n - Suc k" using Suc.hyps by simp
  have step: "for_up (int k) (int n) ?f fl = for_up (int (Suc k)) (int n) ?f ?fl"
    using kn kl by (subst for_up.simps) (simp add: decay_step_in_range add.commute)
  have ih: "for_up (int (Suc k)) (int n) ?f ?fl
              = Inr (take (Suc k) ?fl @ map (\<lambda>x. x * g) (take (n - Suc k) (drop (Suc k) ?fl)) @ drop n ?fl)"
    using Suc.hyps(1)[OF d, of ?fl] kn Suc.prems by simp
  have a: "take (Suc k) ?fl = take k fl @ [fl ! k * g]"
    using kl by (simp add: take_Suc_conv_app_nth)
  have b: "drop (Suc k) ?fl = drop (Suc k) fl" by simp
  have c: "drop n ?fl = drop n fl" using kn by simp
  have e: "take (n - k) (drop k fl) = fl ! k # take (n - Suc k) (drop (Suc k) fl)"
    using kn kl by (metis Cons_nth_drop_Suc Suc_diff_Suc take_Suc_Cons)
  show ?case unfolding step ih a b c e by simp
qed

lemma for_up_decay_all:
  "length fl = n \<Longrightarrow>
   for_up 0 (int n) (\<lambda>a fl. thenE (vget fl a) (\<lambda>x. vset fl a (x * g))) fl
     = (Inr (map (\<lambda>x. x * g) fl) :: 'm abort + double list)"
  using for_up_decay[where k = 0 and n = "length fl" and fl = fl and g = g] by simp

lemma UpdateFeatureLabelVector_eq:
  assumes "length (FeatureLayer state) = GetFeatureSize X"
  shows "UpdateFeatureLabelVector X m label state =
     Inr (state\<lparr>FeatureLayer :=
        (if 0 \<le> label \<and> label < int (GetFeatureSize X)
         then (map (\<lambda>x. x * m_featureGammaCoeff m) (FeatureLayer state))[nat label := Finite 1]
         else map (\<lambda>x. x * m_featureGammaCoeff m) (FeatureLayer state))\<rparr>)"
  unfolding UpdateFeatureLabelVector_def Let_def
  by (subst for_up_decay_all[OF assms]) (simp add: vset_def assms)

lemma in_unit_interval_times:
  "0 \<le> g \<Longrightarrow> g \<le> 1 \<Longrightarrow> in_unit_interval d \<Longrightarrow> in_unit_interval (d * Finite g)"
  by (cases d) (simp_all add: mult_le_one)

lemma in_unit_interval_Finite: "in_unit_interval d \<Longrightarrow> \<exists>x. d = Finite x \<and> 0 \<le> x \<and> x \<le> 1"
  by (cases d) simp_all

lemma UpdateFeatureLabelVector_unit_interval:
  assumes "length (FeatureLayer state) = GetFeatureSize X"
    and "m_featureGammaCoeff m = Finite g" "0 \<le> g" "g \<le> 1"
    and "list_all in_unit_interval (FeatureLayer state)"
  shows "\<exists>s. UpdateFeatureLabelVector X m label state = Inr s
           \<and> length (FeatureLayer s) = GetFeatureSize X
           \<and> list_all in_unit_interval (FeatureLayer s)"
proof -
  have 1: "list_all in_unit_interval (map (\<lambda>x. x * Finite g) (FeatureLayer state))"
    using assms(3-5) by (simp add: list_all_iff in_unit_interval_times)
  then have "list_all in_unit_interval
      ((map (\<lambda>x. x * Finite g) (FeatureLayer state))[nat label := Finite 1])"
    by (auto simp: list_all_iff dest!: subsetD[OF set_update_subset_insert])
  with 1 show ?thesis
    using assms by (simp add: UpdateFeatureLabelVector_eq)
qed

lemma for_each_Update_unit_interval:
  assumes "m_featureGammaCoeff m = Finite g" "0 \<le> g" "g \<le> 1"
  shows "length (FeatureLayer state) = GetFeatureSize X \<Longrightarrow>
         list_all in_unit_interval (FeatureLayer state) \<Longrightarrow>
         \<exists>s. for_each (UpdateFeatureLabelVector X m) labels state = Inr s
           \<and> length (FeatureLayer s) = GetFeatureSize X
           \<and> list_all in_unit_interval (FeatureLayer s)"
proof (induction labels arbitrary: state)
  case Nil
  then show ?case by simp
next
  case (Cons l ls)
  from UpdateFeatureLabelVector_unit_interval[OF Cons.prems(1) assms Cons.prems(2), of l]
  obtain s where s: "UpdateFeatureLabelVector X m l state = Inr s"
    "length (FeatureLayer s) = GetFeatureSize X" "list_all in_unit_interval (FeatureLayer s)"
    by blast
  from Cons.IH[OF s(2,3)] s(1) show ?case by simp
qed

lemma for_each_Update_no_label:
  assumes "m_featureGammaCoeff m = Finite g" "0 \<le> g" "g \<le> 1"
  shows "length (FeatureLayer state) = GetFeatureSize X \<Longrightarrow>
         list_all in_unit_interval (FeatureLayer state) \<Longrightarrow>
         for_each (UpdateFeatureLabelVector X m) (replicate k (- 1)) state
           = Inr (state\<lparr>FeatureLayer := map (\<lambda>x. x * Finite (g ^ k)) (FeatureLayer state)\<rparr>)"
proof (induction k arbitrary: state)
  case 0
  have "map (\<lambda>x. x * Finite 1) (FeatureLayer state) = FeatureLayer state"
    by (intro map_idI) (use 0(2) in \<open>auto simp: list_all_iff elim!: in_unit_interval.elims(2)\<close>)
  then show ?case by simp
next
  case (Suc k)
  let ?s = "state\<lparr>FeatureLayer := map (\<lambda>x. x * Finite g) (FeatureLayer state)\<rparr>"
  have u: "UpdateFeatureLabelVector X m (- 1) state = Inr ?s"
    using Suc.prems assms(1) by (simp add: UpdateFeatureLabelVector_eq)
  have len: "length (FeatureLayer ?s) = GetFeatureSize X" using Suc.prems by simp
  have ui: "list_all in_unit_interval (FeatureLayer ?s)"
    using Suc.prems(2) assms(2,3) by (simp add: list_all_iff in_unit_interval_times)
  have ih: "for_each (UpdateFeatureLabelVector X m) (replicate k (- 1)) ?s
      = Inr (?s\<lparr>FeatureLayer := map (\<lambda>x. x * Finite (g ^ k)) (FeatureLayer ?s)\<rparr>)"
    using Suc.IH[OF len ui] by simp
  have "map (\<lambda>x. x * Finite g * Finite (g ^ k)) (FeatureLayer state)
      = map (\<lambda>x. x * Finite (g ^ Suc k)) (FeatureLayer state)"
    by (intro map_cong refl)
      (use Suc.prems(2) in \<open>auto simp: list_all_iff mult.assoc elim!: in_unit_interval.elims(2)\<close>)
  then show ?case using u ih by (simp add: comp_def)
qed

lemma decay_tends_to_zero:
  fixes g x :: real
  assumes "0 \<le> g" "g < 1"
  shows "(\<lambda>k. x * g ^ k) \<longlonglongrightarrow> 0"
  using tendsto_mult_right_zero[OF LIMSEQ_realpow_zero[OF assms], of x] .

lemma no_label_fixed_point:
  assumes "UpdateFeatureLabelVector X m (- 1) s = Inr s"
  shows "for_each (UpdateFeatureLabelVector X m) (replicate k (- 1)) s = Inr s"
  using assms by (induction k) simp_all

text \<open>
  C9, as amended. Let the decay coefficient \<open>m_featureGammaCoeff\<close> be a number \<open>g\<close> between
  0 and 1. From the feature layer that \<open>ResetFeatureLabelVector\<close> leaves, every sequence of
  calls of \<open>UpdateFeatureLabelVector\<close>, whatever their labels, runs without leaving the
  vector and ends in a state \<open>s\<close> whose feature layer has the configured size and all its
  entries between 0 and 1. In such a state one more call multiplies every entry by \<open>g\<close>
  and then sets the entry of its label to 1, when the label is one of the feature layer.
  After \<open>k\<close> calls with no label of the feature layer (the label \<open>-1\<close>), entry \<open>i\<close> is, in
  the exact arithmetic of the model, its value \<open>x\<close> times \<open>g ^ k\<close>: it never grows, and when
  \<open>g\<close> is below 1 it tends to zero. Nothing is said of a decay for the coefficient 1.
\<close>

theorem FeatureLayer_stays_in_unit_interval:
  assumes "m_featureGammaCoeff m = Finite g" and "0 \<le> g" and "g \<le> 1"
  shows "\<exists>s. for_each (UpdateFeatureLabelVector X m) labels (ResetFeatureLabelVector X s0) = Inr s
      \<and> length (FeatureLayer s) = GetFeatureSize X
      \<and> list_all in_unit_interval (FeatureLayer s)
      \<and> (\<forall>label. UpdateFeatureLabelVector X m label s =
            Inr (s\<lparr>FeatureLayer :=
              (if 0 \<le> label \<and> label < int (GetFeatureSize X)
               then (map (\<lambda>x. x * Finite g) (FeatureLayer s))[nat label := Finite 1]
               else map (\<lambda>x. x * Finite g) (FeatureLayer s))\<rparr>))
      \<and> (\<forall>k. for_each (UpdateFeatureLabelVector X m) (replicate k (- 1)) s =
            Inr (s\<lparr>FeatureLayer := map (\<lambda>x. x * Finite (g ^ k)) (FeatureLayer s)\<rparr>))
      \<and> (\<forall>i<GetFeatureSize X. \<exists>x. FeatureLayer s ! i = Finite x
            \<and> (\<forall>k. FeatureLayer s ! i * Finite (g ^ k) = Finite (x * g ^ k)
                  \<and> x * g ^ Suc k \<le> x * g ^ k \<and> 0 \<le> x * g ^ k)
            \<and> (g < 1 \<longrightarrow> (\<lambda>k. x * g ^ k) \<longlonglongrightarrow> 0))"
proof -
  let ?r = "ResetFeatureLabelVector X s0"
  have len0: "length (FeatureLayer ?r) = GetFeatureSize X"
    by (simp add: ResetFeatureLabelVector_def)
  have ui0: "list_all in_unit_interval (FeatureLayer ?r)"
    by (simp add: ResetFeatureLabelVector_def list_all_iff zero_double_def)
  from for_each_Update_unit_interval[OF assms len0 ui0, of labels]
  obtain s where s: "for_each (UpdateFeatureLabelVector X m) labels ?r = Inr s"
    "length (FeatureLayer s) = GetFeatureSize X" "list_all in_unit_interval (FeatureLayer s)"
    by blast
  have one: "\<forall>label. UpdateFeatureLabelVector X m label s =
            Inr (s\<lparr>FeatureLayer :=
              (if 0 \<le> label \<and> label < int (GetFeatureSize X)
               then (map (\<lambda>x. x * Finite g) (FeatureLayer s))[nat label := Finite 1]
               else map (\<lambda>x. x * Finite g) (FeatureLayer s))\<rparr>)"
    using UpdateFeatureLabelVector_eq[OF s(2), of m] assms(1) by simp
  have decay: "\<forall>k. for_each (UpdateFeatureLabelVector X m) (replicate k (- 1)) s =
            Inr (s\<lparr>FeatureLayer := map (\<lambda>x. x * Finite (g ^ k)) (FeatureLayer s)\<rparr>)"
    using for_each_Update_no_label[OF assms s(2,3)] by simp
  have entries: "\<forall>i<GetFeatureSize X. \<exists>x. FeatureLayer s ! i = Finite x
            \<and> (\<forall>k. FeatureLayer s ! i * Finite (g ^ k) = Finite (x * g ^ k)
                  \<and> x * g ^ Suc k \<le> x * g ^ k \<and> 0 \<le> x * g ^ k)
            \<and> (g < 1 \<longrightarrow> (\<lambda>k. x * g ^ k) \<longlonglongrightarrow> 0)"
  proof (intro allI impI)
    fix i assume "i < GetFeatureSize X"
    then have "in_unit_interval (FeatureLayer s ! i)"
      using s(2,3) by (simp add: list_all_length)
    then obtain x where x: "FeatureLayer s ! i = Finite x" "0 \<le> x" "x \<le> 1"
      using in_unit_interval_Finite by blast
    have "\<And>k. x * g ^ Suc k \<le> x * g ^ k"
    proof -
      fix k
      have "g ^ k * g \<le> g ^ k * 1"
        using assms(2,3) by (intro mult_left_mono) simp_all
      then have "x * (g ^ k * g) \<le> x * (g ^ k * 1)"
        using x(2) by (rule mult_left_mono)
      then show "x * g ^ Suc k \<le> x * g ^ k" by (simp add: mult.commute)
    qed
    moreover have "\<And>k. 0 \<le> x * g ^ k" using x(2) assms(2) by simp
    moreover have "g < 1 \<longrightarrow> (\<lambda>k. x * g ^ k) \<longlonglongrightarrow> 0"
      using decay_tends_to_zero[OF assms(2)] by blast
    ultimately show "\<exists>x. FeatureLayer s ! i = Finite x
            \<and> (\<forall>k. FeatureLayer s ! i * Finite (g ^ k) = Finite (x * g ^ k)
                  \<and> x * g ^ Suc k \<le> x * g ^ k \<and> 0 \<le> x * g ^ k)
            \<and> (g < 1 \<longrightarrow> (\<lambda>k. x * g ^ k) \<longlonglongrightarrow> 0)"
      using x(1) by simp
  qed
  from s one decay entries show ?thesis by blast
qed

theorem FeatureLayer_stays_in_unit_interval_witness:
  "m_featureGammaCoeff example_model = Finite (1 / 2) \<and> (0::real) \<le> 1 / 2 \<and> (1::real) / 2 \<le> 1
   \<and> (\<exists>s. for_each (UpdateFeatureLabelVector example_collaborators example_model) [1, 0, - 1]
             (ResetFeatureLabelVector example_collaborators example_state) = Inr s
        \<and> FeatureLayer s = [Finite (1 / 2), Finite (1 / 4)]
        \<and> list_all in_unit_interval (FeatureLayer s))"
proof -
  have g: "m_featureGammaCoeff example_model = Finite (1 / 2)" "(0::real) \<le> 1 / 2" "(1::real) / 2 \<le> 1"
    by (simp_all add: example_model_def)
  from FeatureLayer_stays_in_unit_interval[OF g, of example_collaborators "[1, 0, - 1]" example_state]
  obtain s where s:
    "for_each (UpdateFeatureLabelVector example_collaborators example_model) [1, 0, - 1]
       (ResetFeatureLabelVector example_collaborators example_state) = Inr s"
    "list_all in_unit_interval (FeatureLayer s)"
    by blast
  have size: "GetFeatureSize example_collaborators = 2" by (simp add: example_collaborators_def)
  have "for_each (UpdateFeatureLabelVector example_collaborators example_model) [1, 0, - 1]
       (ResetFeatureLabelVector example_collaborators example_state)
     = Inr (example_state\<lparr>FeatureLayer := [Finite (1 / 2), Finite (1 / 4)]\<rparr>)"
    by (simp add: UpdateFeatureLabelVector_eq ResetFeatureLabelVector_def size g(1) zero_double_def
        numeral_2_eq_2)
  with s have "FeatureLayer s = [Finite (1 / 2), Finite (1 / 4)]" by simp
  with s g show ?thesis by blast
qed

text \<open>The claim C9 as it is written fails for the decay coefficient 1, which lies between
  0 and 1: after a call with the label 0 the entry 0 of the example's feature layer is 1,
  and a call with no label of the feature layer leaves the feature layer as it is, so the
  entry is 1 after any number of such calls and does not decay toward zero.\<close>

theorem feature_layer_does_not_decay_for_coefficient_one:
  "in_unit_interval (m_featureGammaCoeff (example_model\<lparr>m_featureGammaCoeff := Finite 1\<rparr>))
   \<and> UpdateFeatureLabelVector example_collaborators
        (example_model\<lparr>m_featureGammaCoeff := Finite 1\<rparr>) 0
        (ResetFeatureLabelVector example_collaborators example_state)
       = Inr (example_state\<lparr>FeatureLayer := [Finite 1, Finite 0]\<rparr>)
   \<and> UpdateFeatureLabelVector example_collaborators
        (example_model\<lparr>m_featureGammaCoeff := Finite 1\<rparr>) (- 1)
        (example_state\<lparr>FeatureLayer := [Finite 1, Finite 0]\<rparr>)
       = Inr (example_state\<lparr>FeatureLayer := [Finite 1, Finite 0]\<rparr>)
   \<and> for_each (UpdateFeatureLabelVector example_collaborators
                  (example_model\<lparr>m_featureGammaCoeff := Finite 1\<rparr>))
        [- 1, - 1, - 1] (example_state\<lparr>FeatureLayer := [Finite 1, Finite 0]\<rparr>)
       = Inr (example_state\<lparr>FeatureLayer := [Finite 1, Finite 0]\<rparr>)"
proof -
  have size: "GetFeatureSize example_collaborators = 2" by (simp add: example_collaborators_def)
  have one: "UpdateFeatureLabelVector example_collaborators
        (example_model\<lparr>m_featureGammaCoeff := Finite 1\<rparr>) (- 1)
        (example_state\<lparr>FeatureLayer := [Finite 1, Finite 0]\<rparr>)
       = Inr (example_state\<lparr>FeatureLayer := [Finite 1, Finite 0]\<rparr>)"
    by (simp add: UpdateFeatureLabelVector_eq size)
  have set: "UpdateFeatureLabelVector example_collaborators
        (example_model\<lparr>m_featureGammaCoeff := Finite 1\<rparr>) 0
        (ResetFeatureLabelVector example_collaborators example_state)
       = Inr (example_state\<lparr>FeatureLayer := [Finite 1, Finite 0]\<rparr>)"
    by (simp add: UpdateFeatureLabelVector_eq ResetFeatureLabelVector_def size zero_double_def
        numeral_2_eq_2)
  from one set show ?thesis by simp
qed

section \<open>Runs of the example\<close>

lemma example_collaborators_simps:
  "GetFeatureSize example_collaborators = 2"
  "GetVocabularySize example_collaborators = 3"
  "GetHiddenSize example_collaborators = 1"
  "ResetAllRnnActivations example_collaborators m s = s"
  "ResetHiddenRnnStateAndWordHistory example_collaborators m s = s"
  "ForwardPropagateOneStep example_collaborators m lw w s =
     s\<lparr>OutputLayer := [Finite 1, Finite (1 / 10),
                         if m_weights m \<le> 3 then Finite (1 / 10) else Finite 0, Finite 1]\<rparr>"
  "ForwardPropagateRecurrentConnectionOnly example_collaborators m s = s"
  "ForwardPropagateWordHistory example_collaborators m s lw w = (s, w)"
  "BackPropagateErrorsThenOneStepGradientDescent example_collaborators lw w m =
     \<lparr> sgd_learningRate = Finite 0, sgd_weights = m_weights m + 1,
       sgd_state = m_state m, sgd_bpttVectors = m_bpttVectors m \<rparr>"
  "Books example_collaborators c b = c"
  by (simp_all add: example_collaborators_def)

lemma example_model_simps:
  "m_corpusTrain example_model = [example_book]"
  "m_corpusValidTest example_model = [example_book]"
  "m_typeOfDepLabels example_model = 2"
  "m_vocabularyStorage example_model =
         [\<lparr> word_vw = ''</s>'', cn = 0, classIndex = 0 \<rparr>,
          \<lparr> word_vw = ''<unk>'', cn = 0, classIndex = 0 \<rparr>,
          \<lparr> word_vw = ''the'', cn = 0, classIndex = 0 \<rparr>]"
  "m_featureGammaCoeff example_model = Finite (1 / 2)"
  "m_wordCounter example_model = 0"
  "m_learningRate example_model = Finite 1"
  "m_minLogProbaImprovement example_model = Finite (1003 / 1000)"
  "m_doStartReducingLearningRate example_model = False"
  "m_iteration example_model = 0"
  "m_state example_model = example_state"
  "m_stateBackup example_model = example_state"
  "m_weights example_model = 0"
  "m_weightsBackup example_model = 0"
  "m_numBpttSteps example_model = 1"
  "m_bpttBlockSize example_model = 1"
  "m_bpttVectors example_model = RnnBptt_new 3 1 2 1 1"
  "events example_model = []"
  "m_usesClassFile example_model = False"
  by (simp_all add: example_model_def)

lemma example_state_simps:
  "FeatureLayer example_state = [Finite 0, Finite 0]"
  "OutputLayer example_state = [Finite 0, Finite 0, Finite 0, Finite 0]"
  by (simp_all add: example_state_def RnnState_new_def numeral_2_eq_2 numeral_Bit0 zero_double_def)

lemma log_tenth: "log 10 (1 / 10) = - 1"
  by (simp add: log_divide)

lemmas example_simps = example_collaborators_simps example_model_simps example_state_simps
  example_token_def example_train_loop_def example_test_loop_def zero_double_def log_tenth

lemmas token_step_defs = PredictWord_def LogProbabilityWord_def AdvanceState_def BeginUnroll_def
  ResetFeatureLabelVector_def on_state_def vget_def vset_def Let_def

lemmas train_step_defs = TrainToken_def TrainAccumulate_def ShiftMemoryForBptt_def
  DiscountedBackPropagation_def for_up.simps for_down.simps RnnBptt_new_def

section \<open>Tokens outside the vocabulary\<close>

lemma TrainAccumulate_oov:
  "CurrentTokenWord tok < 0 \<Longrightarrow> TrainAccumulate X tok (L, m) = Inr (L, m)"
  by (simp add: TrainAccumulate_def Let_def)

text \<open>
  Where the two loops agree. In \<open>TestRnnModel\<close>, a token whose word index is below 0 or
  equal to 1 leaves \<open>uniqueWordCounter\<close>, the accumulated log-probability, the
  log-probability of the sentence and the map of the sentence as they are, and adds one to
  \<open>numUnk\<close>. In \<open>TrainRnnModel\<close>, a token whose word index is below 0 leaves
  \<open>uniqueWordCounter\<close>, the accumulated log-probability and the map of the sentence as they
  are; the training loop has no variable that counts such tokens.
\<close>

theorem out_of_vocabulary_token_is_not_counted:
  assumes "CurrentTokenWord tok < 0 \<or> CurrentTokenWord tok = 1"
  shows "(\<forall>L' m'. TestToken X tok (L, m) = Inr (L', m') \<longrightarrow>
            uniqueWordCounter L' = uniqueWordCounter L
          \<and> testLogProbability L' = testLogProbability L
          \<and> sentenceLogProbability L' = sentenceLogProbability L
          \<and> logProbSentence L' = logProbSentence L
          \<and> numUnk L' = numUnk L + 1)
       \<and> (CurrentTokenWord tok < 0 \<longrightarrow>
           (\<forall>K n K' n'. TrainToken X tok (K, n) = Inr (K', n') \<longrightarrow>
              uniqueWordCounter K' = uniqueWordCounter K
            \<and> trainLogProbability K' = trainLogProbability K
            \<and> logProbSentence K' = logProbSentence K))"
proof (intro conjI allI impI)
  fix L' m' assume run: "TestToken X tok (L, m) = Inr (L', m')"
  then obtain m1 L2 m2 where
    a: "TestAccumulate X tok (L, m1) = Inr (L2, m2)" and
    L': "L' = L2\<lparr>lastWord := snd (AdvanceState X (lastWord L2) (CurrentTokenWord tok) m2),
                  lastLabel := CurrentTokenLabel tok\<rparr>"
    by (rule TestToken_InrE)
  from a assms have L2: "L2 = L\<lparr>numUnk := numUnk L + 1\<rparr>"
    by (simp add: TestAccumulate_oov)
  show "uniqueWordCounter L' = uniqueWordCounter L" by (simp add: L' L2)
  show "testLogProbability L' = testLogProbability L" by (simp add: L' L2)
  show "sentenceLogProbability L' = sentenceLogProbability L" by (simp add: L' L2)
  show "logProbSentence L' = logProbSentence L" by (simp add: L' L2)
  show "numUnk L' = numUnk L + 1" by (simp add: L' L2)
next
  fix K n K' n'
  assume neg: "CurrentTokenWord tok < 0" and run: "TrainToken X tok (K, n) = Inr (K', n')"
  from run obtain m1 L2 m2 m3 where
    a: "TrainAccumulate X tok (K, m1) = Inr (L2, m2)" and
    K': "K' = L2\<lparr>lastWord := snd (AdvanceState X (lastWord L2) (CurrentTokenWord tok)
          (DiscountedBackPropagation X (lastWord L2) (CurrentTokenWord tok) (CurrentTokenDiscount tok) m3)),
          lastLabel := CurrentTokenLabel tok\<rparr>"
    by (rule TrainToken_InrE)
  from a neg have L2: "L2 = K" by (simp add: TrainAccumulate_oov)
  show "uniqueWordCounter K' = uniqueWordCounter K" by (simp add: K' L2)
  show "trainLogProbability K' = trainLogProbability K" by (simp add: K' L2)
  show "logProbSentence K' = logProbSentence K" by (simp add: K' L2)
qed

theorem out_of_vocabulary_token_is_not_counted_witness:
  "(CurrentTokenWord (example_token 1 (- 1)) < 0 \<or> CurrentTokenWord (example_token 1 (- 1)) = 1)
   \<and> (\<exists>L' m'. TestToken example_collaborators (example_token 1 (- 1))
                  (example_test_loop, example_model) = Inr (L', m')
         \<and> uniqueWordCounter L' = 0 \<and> testLogProbability L' = Finite 0 \<and> numUnk L' = 1)
   \<and> (\<exists>K' n'. TrainToken example_collaborators (example_token 1 (- 1))
                  (example_train_loop, example_model) = Inr (K', n')
         \<and> uniqueWordCounter K' = 0 \<and> trainLogProbability K' = Finite 0)"
proof -
  let ?tok = "example_token 1 (- 1)"
  have w: "CurrentTokenWord ?tok < 0 \<or> CurrentTokenWord ?tok = 1"
    and neg: "CurrentTokenWord ?tok < 0"
    by (simp_all add: example_token_def)
  obtain L' m' where
    test: "TestToken example_collaborators ?tok (example_test_loop, example_model) = Inr (L', m')"
    by (simp add: TestToken_def TestAccumulate_def token_step_defs example_simps
        UpdateFeatureLabelVector_eq)
  obtain K' n' where
    train: "TrainToken example_collaborators ?tok (example_train_loop, example_model) = Inr (K', n')"
    by (simp add: train_step_defs token_step_defs example_simps UpdateFeatureLabelVector_eq)
  from out_of_vocabulary_token_is_not_counted[OF w, of example_collaborators
      example_test_loop example_model] test train neg
  have "uniqueWordCounter L' = uniqueWordCounter example_test_loop"
    "testLogProbability L' = testLogProbability example_test_loop"
    "numUnk L' = numUnk example_test_loop + 1"
    "uniqueWordCounter K' = uniqueWordCounter example_train_loop"
    "trainLogProbability K' = trainLogProbability example_train_loop"
    by blast+
  then have "uniqueWordCounter L' = 0" "testLogProbability L' = Finite 0" "numUnk L' = 1"
    "uniqueWordCounter K' = 0" "trainLogProbability K' = Finite 0"
    by (simp_all add: example_simps)
  with w test train show ?thesis by blast
qed

text \<open>
  C2. The two loops differ on the word index 1, the index of \<open><unk>\<close>. Both carry the
  comment that words outside the vocabulary are not counted for the perplexity.
  \<open>TestRnnModel\<close> tests \<open>(word >= 0) && (word != 1)\<close> (line 582); \<open>TrainRnnModel\<close> tests
  \<open>word >= 0\<close> only (line 286). The token at position 1 of the example has the word index
  1 and the probability 1/10. In evaluation it leaves \<open>uniqueWordCounter\<close> and the
  accumulated log-probability at 0 and raises \<open>numUnk\<close> to 1. In training it is counted:
  \<open>uniqueWordCounter\<close> becomes 1, the accumulated log-probability \<open>-1\<close>, and the map of the
  sentence holds \<open>-1\<close> for the position.
\<close>

theorem unknown_word_is_counted_in_training:
  "CurrentTokenWord (example_token 1 1) = 1
   \<and> uniqueWordCounter example_test_loop = 0
   \<and> testLogProbability example_test_loop = Finite 0
   \<and> numUnk example_test_loop = 0
   \<and> map_sum id (\<lambda>(L, m). (uniqueWordCounter L, testLogProbability L, numUnk L,
                              logProbSentence L 1))
        (TestToken example_collaborators (example_token 1 1) (example_test_loop, example_model))
       = Inr (0, Finite 0, 1, None)
   \<and> uniqueWordCounter example_train_loop = 0
   \<and> trainLogProbability example_train_loop = Finite 0
   \<and> map_sum id (\<lambda>(L, m). (uniqueWordCounter L, trainLogProbability L, logProbSentence L 1))
        (TrainToken example_collaborators (example_token 1 1) (example_train_loop, example_model))
       = Inr (1, Finite (- 1), Some (Finite (- 1)))"
  by (simp add: TestToken_def TestAccumulate_def train_step_defs token_step_defs example_simps
      UpdateFeatureLabelVector_eq)

section \<open>The learning rate after a token\<close>

text \<open>
  C4. Whatever the discount of a token, and whatever learning rate the back-propagation
  leaves behind, the learning rate after lines 345 to 360 is the one before them; the
  back-propagation itself is run with the discounted rate. So a token of the training
  loop that is handled to its end, and a whole pass over the corpus, leave the learning
  rate as it was.
\<close>

theorem learning_rate_is_restored_after_back_propagation:
  "m_learningRate (DiscountedBackPropagation X lw word discount m) = m_learningRate m
   \<and> m_weights (DiscountedBackPropagation X lw word discount m) =
       sgd_weights (BackPropagateErrorsThenOneStepGradientDescent X lw word
                      (m\<lparr>m_learningRate := m_learningRate m * discount\<rparr>))
   \<and> (\<forall>L' m'. TrainToken X tok (L, m) = Inr (L', m') \<longrightarrow> m_learningRate m' = m_learningRate m)
   \<and> (\<forall>L' m'. TrainEpoch X m = Inr (L', m') \<longrightarrow> m_learningRate m' = m_learningRate m)"
proof (intro conjI allI impI)
  show "m_learningRate (DiscountedBackPropagation X lw word discount m) = m_learningRate m"
    by (rule DiscountedBackPropagation_learningRate)
  show "m_weights (DiscountedBackPropagation X lw word discount m) =
       sgd_weights (BackPropagateErrorsThenOneStepGradientDescent X lw word
                      (m\<lparr>m_learningRate := m_learningRate m * discount\<rparr>))"
    by (simp add: DiscountedBackPropagation_def Let_def)
next
  fix L' m' assume "TrainToken X tok (L, m) = Inr (L', m')"
  from TrainToken_frame[OF this] show "m_learningRate m' = m_learningRate m"
    by (simp add: pass_frame_def)
next
  fix L' m' assume "TrainEpoch X m = Inr (L', m')"
  from TrainEpoch_frame[OF this] show "m_learningRate m' = m_learningRate m"
    by (simp add: pass_frame_def)
qed

theorem learning_rate_is_restored_after_back_propagation_witness:
  "CurrentTokenDiscount (example_token 0 2) = Finite (1 / 2)
   \<and> sgd_learningRate (BackPropagateErrorsThenOneStepGradientDescent example_collaborators 0 2
        example_model) = Finite 0
   \<and> m_learningRate example_model = Finite 1
   \<and> (\<exists>L' m'. TrainToken example_collaborators (example_token 0 2)
                  (example_train_loop, example_model) = Inr (L', m')
         \<and> m_weights m' = 1 \<and> m_learningRate m' = Finite 1)"
proof -
  obtain L' m' where
    run: "TrainToken example_collaborators (example_token 0 2) (example_train_loop, example_model)
            = Inr (L', m')" and w: "m_weights m' = 1"
    by (simp add: train_step_defs token_step_defs example_simps UpdateFeatureLabelVector_eq)
  from learning_rate_is_restored_after_back_propagation[of example_collaborators _ _ _
      example_model "example_token 0 2" example_train_loop] run
  have "m_learningRate m' = m_learningRate example_model" by blast
  with run w show ?thesis by (simp add: example_simps)
qed

section \<open>A position that is visited again\<close>

text \<open>
  C10. When the position of a token is already in the map of the sentence, the token
  loop of \<open>TestRnnModel\<close> leaves the map, the log-probability of the sentence, the
  accumulated log-probability, \<open>uniqueWordCounter\<close> and \<open>sentenceScores\<close> as they are.
  At most one event is added: the diagnostic of a mismatch, when the word is in the
  vocabulary and the log-probability computed now is not the stored one.
\<close>

theorem revisited_position_changes_no_account:
  assumes "logProbSentence L (CurrentTokenNumberInSentence tok) = Some stored"
    and "TestToken X tok (L, m) = Inr (L', m')"
  shows "logProbSentence L' = logProbSentence L
       \<and> sentenceLogProbability L' = sentenceLogProbability L
       \<and> testLogProbability L' = testLogProbability L
       \<and> uniqueWordCounter L' = uniqueWordCounter L
       \<and> sentenceScores L' = sentenceScores L
       \<and> (events m' = events m
          \<or> (\<exists>new. d_noteq stored new
                \<and> events m' = events m @ [LogProbSentenceMismatch stored new]))
       \<and> (\<forall>m1 new. 0 \<le> CurrentTokenWord tok \<and> CurrentTokenWord tok \<noteq> 1
             \<and> PredictWord X (lastLabel L) (lastWord L) (CurrentTokenWord tok) m = Inr m1
             \<and> LogProbabilityWord X (CurrentTokenWord tok) m1 = Inr new \<and> d_noteq stored new
             \<longrightarrow> events m' = events m @ [LogProbSentenceMismatch stored new])"
proof -
  from assms(2) obtain m1 L2 m2 where
    p: "PredictWord X (lastLabel L) (lastWord L) (CurrentTokenWord tok) m = Inr m1" and
    a: "TestAccumulate X tok (L, m1) = Inr (L2, m2)" and
    m': "m' = fst (AdvanceState X (lastWord L2) (CurrentTokenWord tok) m2)" and
    L': "L' = L2\<lparr>lastWord := snd (AdvanceState X (lastWord L2) (CurrentTokenWord tok) m2),
                  lastLabel := CurrentTokenLabel tok\<rparr>"
    by (rule TestToken_InrE)
  have ev: "events m' = events m2" by (simp add: m' AdvanceState_events)
  have ev1: "events m1 = events m" by (rule PredictWord_events[OF p])
  from a show ?thesis
  proof (cases rule: TestAccumulate_cases)
    case oov
    then show ?thesis using ev ev1 by (auto simp: L')
  next
    case (first lp)
    with assms(1) show ?thesis by simp
  next
    case (revisit lp stored')
    with assms(1) have st: "stored' = stored" by simp
    have acc: "logProbSentence L' = logProbSentence L"
      "sentenceLogProbability L' = sentenceLogProbability L"
      "testLogProbability L' = testLogProbability L"
      "uniqueWordCounter L' = uniqueWordCounter L"
      "sentenceScores L' = sentenceScores L"
      by (simp_all add: L' revisit(5))
    have e: "events m' = events m @ (if d_noteq stored lp then [LogProbSentenceMismatch stored lp] else [])"
      using ev ev1 revisit(6) st by simp
    have "\<forall>m1' new. 0 \<le> CurrentTokenWord tok \<and> CurrentTokenWord tok \<noteq> 1
             \<and> PredictWord X (lastLabel L) (lastWord L) (CurrentTokenWord tok) m = Inr m1'
             \<and> LogProbabilityWord X (CurrentTokenWord tok) m1' = Inr new \<and> d_noteq stored new
             \<longrightarrow> events m' = events m @ [LogProbSentenceMismatch stored new]"
      using p revisit(3) e by auto
    moreover have "events m' = events m
          \<or> (\<exists>new. d_noteq stored new
                \<and> events m' = events m @ [LogProbSentenceMismatch stored new])"
      using e by (cases "d_noteq stored lp") auto
    ultimately show ?thesis using acc by blast
  qed
qed

theorem revisited_position_changes_no_account_witness:
  "logProbSentence (example_test_loop\<lparr>logProbSentence := [0 \<mapsto> Finite (- 2)]\<rparr>)
     (CurrentTokenNumberInSentence (example_token 0 2)) = Some (Finite (- 2))
   \<and> (\<exists>L' m'. TestToken example_collaborators (example_token 0 2)
                  (example_test_loop\<lparr>logProbSentence := [0 \<mapsto> Finite (- 2)]\<rparr>, example_model)
                = Inr (L', m')
         \<and> events m' = [LogProbSentenceMismatch (Finite (- 2)) (Finite (- 1))]
         \<and> logProbSentence L' = [0 \<mapsto> Finite (- 2)]
         \<and> sentenceLogProbability L' = Finite 0 \<and> testLogProbability L' = Finite 0
         \<and> uniqueWordCounter L' = 0)"
proof -
  let ?L = "example_test_loop\<lparr>logProbSentence := [0 \<mapsto> Finite (- 2)]\<rparr>"
  have st: "logProbSentence ?L (CurrentTokenNumberInSentence (example_token 0 2)) = Some (Finite (- 2))"
    by (simp add: example_simps)
  obtain L' m' where
    run: "TestToken example_collaborators (example_token 0 2) (?L, example_model) = Inr (L', m')"
    and ev: "events m' = [LogProbSentenceMismatch (Finite (- 2)) (Finite (- 1))]"
    by (simp add: TestToken_def TestAccumulate_def token_step_defs example_simps
        UpdateFeatureLabelVector_eq)
  from revisited_position_changes_no_account[OF st run]
  have "logProbSentence L' = logProbSentence ?L"
    "sentenceLogProbability L' = sentenceLogProbability ?L"
    "testLogProbability L' = testLogProbability ?L"
    "uniqueWordCounter L' = uniqueWordCounter ?L"
    by blast+
  then have "logProbSentence L' = [0 \<mapsto> Finite (- 2)]"
    "sentenceLogProbability L' = Finite 0" "testLogProbability L' = Finite 0"
    "uniqueWordCounter L' = 0"
    by (simp_all add: example_simps)
  with st run ev show ?thesis by blast
qed

section \<open>The score of a sentence\<close>

lemma sum_of_stored_empty: "sum_of_stored Map.empty = 0"
  by (simp add: sum_of_stored_def)

lemma sum_of_stored_update:
  assumes "finite (dom M)" and "M p = None"
  shows "sum_of_stored (M(p \<mapsto> v)) = sum_of_stored M + v"
proof -
  have notin: "p \<notin> dom M" using assms(2) by (simp add: domIff)
  have same: "(\<Sum>q\<in>dom M. the ((M(p \<mapsto> v)) q)) = (\<Sum>q\<in>dom M. the (M q))"
    by (rule sum.cong) (use notin in auto)
  have "sum_of_stored (M(p \<mapsto> v)) = (\<Sum>q\<in>insert p (dom M). the ((M(p \<mapsto> v)) q))"
    unfolding sum_of_stored_def dom_fun_upd by simp
  also have "\<dots> = the ((M(p \<mapsto> v)) p) + (\<Sum>q\<in>dom M. the ((M(p \<mapsto> v)) q))"
    by (rule sum.insert[OF assms(1) notin])
  also have "\<dots> = v + sum_of_stored M"
    unfolding same sum_of_stored_def by simp
  finally show ?thesis by (simp add: add.commute)
qed

text \<open>The account of a sentence, from the counters \<open>u\<close> and \<open>t\<close> and the scores \<open>sc\<close> at
  its start.\<close>

lemma TestToken_account:
  assumes run: "TestToken X tok (L, m) = Inr (L', m')"
    and inv: "finite (dom (logProbSentence L))"
      "sentenceLogProbability L = sum_of_stored (logProbSentence L)"
      "testLogProbability L = t + sum_of_stored (logProbSentence L)"
      "uniqueWordCounter L = u + int (card (dom (logProbSentence L)))"
      "sentenceScores L = sc"
  shows "finite (dom (logProbSentence L'))
       \<and> sentenceLogProbability L' = sum_of_stored (logProbSentence L')
       \<and> testLogProbability L' = t + sum_of_stored (logProbSentence L')
       \<and> uniqueWordCounter L' = u + int (card (dom (logProbSentence L')))
       \<and> sentenceScores L' = sc
       \<and> logProbSentence L \<subseteq>\<^sub>m logProbSentence L'"
proof -
  from run obtain m1 L2 m2 where
    a: "TestAccumulate X tok (L, m1) = Inr (L2, m2)" and
    L': "L' = L2\<lparr>lastWord := snd (AdvanceState X (lastWord L2) (CurrentTokenWord tok) m2),
                  lastLabel := CurrentTokenLabel tok\<rparr>"
    by (rule TestToken_InrE)
  from a show ?thesis
  proof (cases rule: TestAccumulate_cases)
    case oov
    then show ?thesis using inv by (simp add: L')
  next
    case (first lp)
    let ?p = "CurrentTokenNumberInSentence tok"
    have notin: "?p \<notin> dom (logProbSentence L)" using first(4) by (simp add: domIff)
    have le: "logProbSentence L \<subseteq>\<^sub>m (logProbSentence L)(?p \<mapsto> lp)"
      using first(4) by (auto simp: map_le_def)
    show ?thesis
      using inv notin le
      by (simp add: L' first(5) sum_of_stored_update[OF inv(1) first(4)] add.assoc)
  next
    case (revisit lp stored)
    then show ?thesis using inv by (simp add: L')
  qed
qed


lemma TestToken_keeps_stored:
  assumes "TestToken X tok (L, m) = Inr (L', m')" and "logProbSentence L p = Some v"
  shows "logProbSentence L' p = Some v"
proof -
  from assms(1) obtain m1 L2 m2 where
    a: "TestAccumulate X tok (L, m1) = Inr (L2, m2)" and
    L': "L' = L2\<lparr>lastWord := snd (AdvanceState X (lastWord L2) (CurrentTokenWord tok) m2),
                  lastLabel := CurrentTokenLabel tok\<rparr>"
    by (rule TestToken_InrE)
  from a show ?thesis
    by (cases rule: TestAccumulate_cases) (use assms(2) in \<open>auto simp: L'\<close>)
qed

lemma TestToken_first_visit:
  assumes "TestToken X tok (L, m) = Inr (L', m')"
    and "logProbSentence L (CurrentTokenNumberInSentence tok) = None"
    and "0 \<le> CurrentTokenWord tok" "CurrentTokenWord tok \<noteq> 1"
    and "PredictWord X (lastLabel L) (lastWord L) (CurrentTokenWord tok) m = Inr m1"
    and "LogProbabilityWord X (CurrentTokenWord tok) m1 = Inr lp"
  shows "logProbSentence L' (CurrentTokenNumberInSentence tok) = Some lp"
proof -
  from assms(1) obtain m1' L2 m2 where
    p: "PredictWord X (lastLabel L) (lastWord L) (CurrentTokenWord tok) m = Inr m1'" and
    a: "TestAccumulate X tok (L, m1') = Inr (L2, m2)" and
    L': "L' = L2\<lparr>lastWord := snd (AdvanceState X (lastWord L2) (CurrentTokenWord tok) m2),
                  lastLabel := CurrentTokenLabel tok\<rparr>"
    by (rule TestToken_InrE)
  from p assms(5) have "m1' = m1" by simp
  with a TestAccumulate_first[OF assms(3,4,6,2)]
  have "L2 = L\<lparr>logProbSentence := (logProbSentence L)(CurrentTokenNumberInSentence tok \<mapsto> lp),
            testLogProbability := testLogProbability L + lp,
            sentenceLogProbability := sentenceLogProbability L + lp,
            uniqueWordCounter := uniqueWordCounter L + 1\<rparr>"
    by simp
  then show ?thesis by (simp add: L')
qed

lemma TestTokens_account:
  assumes "for_each (TestToken X) toks (L, m) = Inr (L', m')"
    and "sentence_account u t sc L"
  shows "sentence_account u t sc L'"
proof -
  have "sentence_account u t sc (fst (L', m'))"
  proof (rule for_each_invariant[where P = "\<lambda>s. sentence_account u t sc (fst s)"
        and f = "TestToken X", OF _ assms(1)])
    fix x s s' assume "TestToken X x s = Inr s'" "sentence_account u t sc (fst s)"
    then show "sentence_account u t sc (fst s')"
      using TestToken_account[of X x "fst s" "snd s" "fst s'" "snd s'" t u sc]
      by (simp add: sentence_account_def)
  qed (use assms(2) in simp)
  then show ?thesis by simp
qed

lemma TestTokens_keep_stored:
  assumes "for_each (TestToken X) toks (L, m) = Inr (L', m')"
    and "logProbSentence L p = Some v"
  shows "logProbSentence L' p = Some v"
proof -
  have "logProbSentence (fst (L', m')) p = Some v"
  proof (rule for_each_invariant[where P = "\<lambda>s. logProbSentence (fst s) p = Some v"
        and f = "TestToken X", OF _ assms(1)])
    fix x s s' assume "TestToken X x s = Inr s'" "logProbSentence (fst s) p = Some v"
    then show "logProbSentence (fst s') p = Some v"
      using TestToken_keeps_stored[of X x "fst s" "snd s" "fst s'" "snd s'" p v] by simp
  qed (use assms(2) in simp)
  then show ?thesis by simp
qed

lemma TestUnroll_eq:
  "TestUnroll X u (L, m) =
     for_each (TestToken X) (fst u # snd u) (L\<lparr>lastWord := 0, lastLabel := 0\<rparr>, BeginUnroll X m)"
  by (simp add: TestUnroll_def)

lemma TestUnrolls_account:
  assumes "for_each (TestUnroll X) us (L, m) = Inr (L', m')"
    and "sentence_account u t sc L"
  shows "sentence_account u t sc L'"
proof -
  have "sentence_account u t sc (fst (L', m'))"
  proof (rule for_each_invariant[where P = "\<lambda>s. sentence_account u t sc (fst s)"
        and f = "TestUnroll X", OF _ assms(1)])
    fix x s s' assume a: "TestUnroll X x s = Inr s'" "sentence_account u t sc (fst s)"
    from a(2) have "sentence_account u t sc ((fst s)\<lparr>lastWord := 0, lastLabel := 0\<rparr>)"
      by (simp add: sentence_account_def)
    with a(1) show "sentence_account u t sc (fst s')"
      using TestTokens_account[of X "fst x # snd x" "(fst s)\<lparr>lastWord := 0, lastLabel := 0\<rparr>"
          "BeginUnroll X (snd s)" "fst s'" "snd s'" u t sc]
        TestUnroll_eq[of X x "fst s" "snd s"]
      by simp
  qed (use assms(2) in simp)
  then show ?thesis by simp
qed

lemma TestUnrolls_keep_stored:
  assumes "for_each (TestUnroll X) us (L, m) = Inr (L', m')"
    and "logProbSentence L p = Some v"
  shows "logProbSentence L' p = Some v"
proof -
  have "logProbSentence (fst (L', m')) p = Some v"
  proof (rule for_each_invariant[where P = "\<lambda>s. logProbSentence (fst s) p = Some v"
        and f = "TestUnroll X", OF _ assms(1)])
    fix x s s' assume a: "TestUnroll X x s = Inr s'" "logProbSentence (fst s) p = Some v"
    then show "logProbSentence (fst s') p = Some v"
      using TestTokens_keep_stored[of X "fst x # snd x" "(fst s)\<lparr>lastWord := 0, lastLabel := 0\<rparr>"
          "BeginUnroll X (snd s)" "fst s'" "snd s'" p v]
        TestUnroll_eq[of X x "fst s" "snd s"]
      by simp
  qed (use assms(2) in simp)
  then show ?thesis by simp
qed

text \<open>
  C5. Let the loop over the unrolls of a sentence of \<open>TestRnnModel\<close> end with the map
  \<open>logProbSentence L1\<close>. Then the sentence is handled to its end, and the score appended
  to \<open>sentenceScores\<close> is the sum, over the positions of the map, of the stored
  log-probability: every position is there once. The map is finite, \<open>uniqueWordCounter\<close>
  has grown by the number of its positions and the accumulated log-probability by the same
  sum. What the map stores for a position is the log-probability computed at its first
  visit: when a token of the sentence, reached with its position not yet in the map and
  its word in the vocabulary, gets the log-probability \<open>lp\<close>, then the map at the end of
  the sentence holds \<open>lp\<close> for that position.
\<close>

theorem sentence_score_is_sum_over_positions:
  assumes "TestUnrolls X unrolls (L, m) = Inr (L1, m1)"
  shows "TestSentence X unrolls (L, m) =
           Inr (L1\<lparr>logProbSentence := Map.empty,
                   sentenceScores := sentenceScores L @ [sum_of_stored (logProbSentence L1)]\<rparr>, m1)
       \<and> finite (dom (logProbSentence L1))
       \<and> uniqueWordCounter L1 = uniqueWordCounter L + int (card (dom (logProbSentence L1)))
       \<and> testLogProbability L1 = testLogProbability L + sum_of_stored (logProbSentence L1)
       \<and> (\<forall>us1 u us2 ts1 tok ts2 Lu mu Lt mt mp lp.
            unrolls = us1 @ u # us2 \<and> fst u # snd u = ts1 @ tok # ts2
          \<and> for_each (TestUnroll X) us1
               (L\<lparr>logProbSentence := Map.empty, sentenceLogProbability := 0\<rparr>, m) = Inr (Lu, mu)
          \<and> for_each (TestToken X) ts1 (Lu\<lparr>lastWord := 0, lastLabel := 0\<rparr>, BeginUnroll X mu)
               = Inr (Lt, mt)
          \<and> logProbSentence Lt (CurrentTokenNumberInSentence tok) = None
          \<and> 0 \<le> CurrentTokenWord tok \<and> CurrentTokenWord tok \<noteq> 1
          \<and> PredictWord X (lastLabel Lt) (lastWord Lt) (CurrentTokenWord tok) mt = Inr mp
          \<and> LogProbabilityWord X (CurrentTokenWord tok) mp = Inr lp
          \<longrightarrow> logProbSentence L1 (CurrentTokenNumberInSentence tok) = Some lp)"
proof -
  let ?L0 = "L\<lparr>logProbSentence := Map.empty, sentenceLogProbability := 0\<rparr>"
  from assms have run: "for_each (TestUnroll X) unrolls (?L0, m) = Inr (L1, m1)"
    by (simp add: TestUnrolls_def)
  have "sentence_account (uniqueWordCounter L) (testLogProbability L) (sentenceScores L) ?L0"
    by (simp add: sentence_account_def sum_of_stored_empty)
  from TestUnrolls_account[OF run this]
  have acc: "finite (dom (logProbSentence L1))"
    "sentenceLogProbability L1 = sum_of_stored (logProbSentence L1)"
    "testLogProbability L1 = testLogProbability L + sum_of_stored (logProbSentence L1)"
    "uniqueWordCounter L1 = uniqueWordCounter L + int (card (dom (logProbSentence L1)))"
    "sentenceScores L1 = sentenceScores L"
    by (simp_all add: sentence_account_def)
  have score: "TestSentence X unrolls (L, m) =
           Inr (L1\<lparr>logProbSentence := Map.empty,
                   sentenceScores := sentenceScores L @ [sum_of_stored (logProbSentence L1)]\<rparr>, m1)"
    using assms acc(2,5) by (simp add: TestSentence_def)
  have first: "logProbSentence L1 (CurrentTokenNumberInSentence tok) = Some lp"
    if dec: "unrolls = us1 @ u # us2" "fst u # snd u = ts1 @ tok # ts2"
      and us1: "for_each (TestUnroll X) us1 (?L0, m) = Inr (Lu, mu)"
      and ts1: "for_each (TestToken X) ts1 (Lu\<lparr>lastWord := 0, lastLabel := 0\<rparr>, BeginUnroll X mu)
               = Inr (Lt, mt)"
      and new: "logProbSentence Lt (CurrentTokenNumberInSentence tok) = None"
      and voc: "0 \<le> CurrentTokenWord tok" "CurrentTokenWord tok \<noteq> 1"
      and p: "PredictWord X (lastLabel Lt) (lastWord Lt) (CurrentTokenWord tok) mt = Inr mp"
      and lp: "LogProbabilityWord X (CurrentTokenWord tok) mp = Inr lp"
    for us1 u us2 ts1 tok ts2 Lu mu Lt mt mp lp
  proof -
    from run dec(1) us1 obtain Lv mv where
      u: "TestUnroll X u (Lu, mu) = Inr (Lv, mv)" and
      us2: "for_each (TestUnroll X) us2 (Lv, mv) = Inr (L1, m1)"
      by (auto simp: for_each_append split: sum.splits)
    from u dec(2) ts1 obtain Lw mw where
      t: "TestToken X tok (Lt, mt) = Inr (Lw, mw)" and
      ts2: "for_each (TestToken X) ts2 (Lw, mw) = Inr (Lv, mv)"
      by (auto simp: TestUnroll_def for_each_append split: sum.splits)
    from TestToken_first_visit[OF t new voc p lp]
    have "logProbSentence Lw (CurrentTokenNumberInSentence tok) = Some lp" .
    from TestTokens_keep_stored[OF ts2 this]
    have "logProbSentence Lv (CurrentTokenNumberInSentence tok) = Some lp" .
    from TestUnrolls_keep_stored[OF us2 this] show ?thesis .
  qed
  from score acc(1,4,3) first show ?thesis by blast
qed


theorem sentence_score_is_sum_over_positions_witness:
  "\<exists>L1 m1. TestUnrolls example_collaborators example_sentence (example_test_loop, example_model)
              = Inr (L1, m1)
     \<and> logProbSentence L1 = [0 \<mapsto> Finite (- 1)]
     \<and> uniqueWordCounter L1 = 1 \<and> testLogProbability L1 = Finite (- 1)
     \<and> (\<exists>L2. TestSentence example_collaborators example_sentence (example_test_loop, example_model)
                = Inr (L2, m1)
           \<and> sentenceScores L2 = [Finite (- 1)])"
proof -
  obtain L1 m1 where
    run: "TestUnrolls example_collaborators example_sentence (example_test_loop, example_model)
            = Inr (L1, m1)"
    and stored: "logProbSentence L1 = [0 \<mapsto> Finite (- 1)]"
    by (simp add: TestUnrolls_def TestUnroll_def TestToken_def TestAccumulate_def token_step_defs
        example_simps example_sentence_def UpdateFeatureLabelVector_eq)
  have sum: "sum_of_stored (logProbSentence L1) = Finite (- 1)"
    by (simp add: stored sum_of_stored_def)
  from sentence_score_is_sum_over_positions[OF run]
  have score: "TestSentence example_collaborators example_sentence (example_test_loop, example_model) =
           Inr (L1\<lparr>logProbSentence := Map.empty,
                   sentenceScores := sentenceScores example_test_loop
                      @ [sum_of_stored (logProbSentence L1)]\<rparr>, m1)"
    and u: "uniqueWordCounter L1
              = uniqueWordCounter example_test_loop + int (card (dom (logProbSentence L1)))"
    and t: "testLogProbability L1
              = testLogProbability example_test_loop + sum_of_stored (logProbSentence L1)"
    by blast+
  have "uniqueWordCounter L1 = 1" using u by (simp add: stored example_simps)
  moreover have "testLogProbability L1 = Finite (- 1)" using t sum by (simp add: example_simps)
  moreover have "sentenceScores (L1\<lparr>logProbSentence := Map.empty,
                   sentenceScores := sentenceScores example_test_loop
                      @ [sum_of_stored (logProbSentence L1)]\<rparr>) = [Finite (- 1)]"
    using sum by (simp add: example_simps)
  ultimately show ?thesis using run stored score by blast
qed

lemmas epoch_defs = TrainEpoch_def TrainSentence_def TrainUnroll_def TestRnnModel_def TestSentence_def
  TestUnrolls_def TestUnroll_def TestToken_def TestAccumulate_def
  TrainAndValidate_def EpochIteration_def EndOfEpoch_def CheckpointOrRollback_def ContinueTraining_def
  example_book_def example_sentence_def

section \<open>What an evaluation leaves as it is\<close>

lemma TestAccumulate_frame:
  "TestAccumulate X tok (L, m) = Inr (L', m') \<Longrightarrow> pass_frame m' = pass_frame m"
  by (erule TestAccumulate_cases) (simp_all add: pass_frame_def)

lemma TestToken_frame:
  assumes "TestToken X tok (L, m) = Inr (L', m')"
  shows "pass_frame m' = pass_frame m"
proof -
  from assms obtain m1 L2 m2 where
    p: "PredictWord X (lastLabel L) (lastWord L) (CurrentTokenWord tok) m = Inr m1" and
    a: "TestAccumulate X tok (L, m1) = Inr (L2, m2)" and
    m': "m' = fst (AdvanceState X (lastWord L2) (CurrentTokenWord tok) m2)"
    by (rule TestToken_InrE)
  show ?thesis
    using PredictWord_frame[OF p] TestAccumulate_frame[OF a]
    by (simp add: m' AdvanceState_frame)
qed

lemma TestUnroll_frame:
  assumes "TestUnroll X u (L, m) = Inr (L', m')"
  shows "pass_frame m' = pass_frame m"
proof -
  from assms have "for_each (TestToken X) (fst u # snd u)
      (L\<lparr>lastWord := 0, lastLabel := 0\<rparr>, BeginUnroll X m) = Inr (L', m')"
    by (simp add: TestUnroll_def)
  from for_each_frame[where g = pass_frame and f = "TestToken X", OF TestToken_frame this]
  show ?thesis by (simp add: BeginUnroll_frame)
qed

lemma TestSentence_frame:
  assumes "TestSentence X us (L, m) = Inr (L', m')"
  shows "pass_frame m' = pass_frame m"
proof -
  from assms obtain L1 where
    "for_each (TestUnroll X) us
       (L\<lparr>logProbSentence := Map.empty, sentenceLogProbability := 0\<rparr>, m) = Inr (L1, m')"
    by (auto simp: TestSentence_def TestUnrolls_def thenE_Inr_iff)
  from for_each_frame[where g = pass_frame and f = "TestUnroll X", OF TestUnroll_frame this]
  show ?thesis .
qed

lemma TestBook_frame:
  "for_each (TestSentence X) book (L, m) = Inr (L', m') \<Longrightarrow> pass_frame m' = pass_frame m"
  by (erule for_each_frame[where g = pass_frame and f = "TestSentence X", OF TestSentence_frame, rotated])

lemma TestRnnModel_frame:
  assumes "TestRnnModel X scores m = Inr (L', m')"
  shows "pass_frame m' = pass_frame m"
proof -
  from assms obtain L0 bs where
    "for_each (\<lambda>book. for_each (TestSentence X) book) bs
       (L0, on_state (ForwardPropagateRecurrentConnectionOnly X) (on_state (ResetAllRnnActivations X) m))
     = Inr (L', m')"
    by (auto simp: TestRnnModel_def Let_def)
  from for_each_frame[where g = pass_frame and f = "\<lambda>book. for_each (TestSentence X) book",
      OF TestBook_frame this]
  show ?thesis by (simp add: pass_frame_def on_state_def)
qed

lemma TrainAndValidate_frame:
  assumes "TrainAndValidate X m = Inr (valid, m')"
  shows "pass_frame m' = pass_frame m"
proof -
  from assms obtain L1 m1 T where
    t: "TrainEpoch X m = Inr (L1, m1)" and v: "TestRnnModel X [] m1 = Inr (T, m')"
    by (auto simp: TrainAndValidate_def thenE_Inr_iff)
  from TrainEpoch_frame[OF t] TestRnnModel_frame[OF v] show ?thesis by simp
qed

section \<open>The end of an epoch\<close>

lemma CheckpointOrRollback_keeps:
  "m_minLogProbaImprovement (CheckpointOrRollback valid prev m) = m_minLogProbaImprovement m"
  "m_doStartReducingLearningRate (CheckpointOrRollback valid prev m) = m_doStartReducingLearningRate m"
  "m_learningRate (CheckpointOrRollback valid prev m) = m_learningRate m"
  "m_iteration (CheckpointOrRollback valid prev m) = m_iteration m"
  by (simp_all add: CheckpointOrRollback_def)

lemma EndOfEpoch_eq:
  "EndOfEpoch valid prev m =
     (let c = CheckpointOrRollback valid prev (m\<lparr>m_wordCounter := 0, m_currentPosTrainFile := 0\<rparr>)
      in if d_less (valid * m_minLogProbaImprovement m) prev
         then if \<not> m_doStartReducingLearningRate m
              then ContinueTraining valid (c\<lparr>m_doStartReducingLearningRate := True\<rparr>)
              else Converged (c\<lparr>events := events c @ [SaveRnnModelToFile, SaveWordEmbeddings]\<rparr>)
         else ContinueTraining valid c)"
  unfolding EndOfEpoch_def Let_def CheckpointOrRollback_keeps by simp

lemma EndOfEpoch_weights:
  "m_weights (epoch_end_model (EndOfEpoch valid prev m))
     = (if d_less valid prev then m_weightsBackup m else m_weights m)"
  "m_state (epoch_end_model (EndOfEpoch valid prev m))
     = (if d_less valid prev then m_stateBackup m else m_state m)"
  "m_weightsBackup (epoch_end_model (EndOfEpoch valid prev m))
     = (if d_less valid prev then m_weightsBackup m else m_weights m)"
  "m_stateBackup (epoch_end_model (EndOfEpoch valid prev m))
     = (if d_less valid prev then m_stateBackup m else m_state m)"
  by (simp_all add: EndOfEpoch_def CheckpointOrRollback_def ContinueTraining_def Let_def)

lemma EndOfEpoch_NextEpoch:
  assumes "EndOfEpoch valid prev m = NextEpoch m1 prev1"
  shows "prev1 = valid" and "m1 = epoch_end_model (EndOfEpoch valid prev m)"
  using assms
  by (simp_all add: EndOfEpoch_def ContinueTraining_def Let_def split: if_splits)

text \<open>
  C1. Let an iteration of the loop over the epochs end with the loop going on, the object
  in state \<open>m1\<close> and the stored value \<open>prev1\<close>; and let the training pass and the validation
  of the next epoch, run from \<open>m1\<close>, give the validation log-probability \<open>valid\<close> and the
  state \<open>m2\<close>. Then \<open>prev1\<close> is the validation log-probability of the epoch before; the
  backups in \<open>m2\<close> are the weights and the state of \<open>m1\<close>; and the iteration ends as
  \<open>EndOfEpoch\<close> says. When \<open>valid < prev1\<close>, the weights and the state after the iteration
  are those of \<open>m1\<close>, the end of the epoch before, and not those of \<open>m2\<close>; otherwise
  they are those of \<open>m2\<close>, and the backups are replaced by them.
\<close>

theorem rollback_restores_the_end_of_the_previous_epoch:
  assumes "EpochIteration X prev0 m0 = Inr (NextEpoch m1 prev1)"
    and "TrainAndValidate X m1 = Inr (valid, m2)"
  shows "(\<exists>m0'. TrainAndValidate X m0 = Inr (prev1, m0'))
       \<and> m_weightsBackup m2 = m_weights m1 \<and> m_stateBackup m2 = m_state m1
       \<and> EpochIteration X prev1 m1 = Inr (EndOfEpoch valid prev1 m2)
       \<and> (d_less valid prev1 \<longrightarrow>
             m_weights (epoch_end_model (EndOfEpoch valid prev1 m2)) = m_weights m1
           \<and> m_state (epoch_end_model (EndOfEpoch valid prev1 m2)) = m_state m1
           \<and> m_weightsBackup (epoch_end_model (EndOfEpoch valid prev1 m2)) = m_weights m1
           \<and> m_stateBackup (epoch_end_model (EndOfEpoch valid prev1 m2)) = m_state m1)
       \<and> (\<not> d_less valid prev1 \<longrightarrow>
             m_weights (epoch_end_model (EndOfEpoch valid prev1 m2)) = m_weights m2
           \<and> m_state (epoch_end_model (EndOfEpoch valid prev1 m2)) = m_state m2
           \<and> m_weightsBackup (epoch_end_model (EndOfEpoch valid prev1 m2)) = m_weights m2
           \<and> m_stateBackup (epoch_end_model (EndOfEpoch valid prev1 m2)) = m_state m2)"
proof -
  from assms(1) obtain v0 m0' where
    tv0: "TrainAndValidate X m0 = Inr (v0, m0')" and
    e0: "EndOfEpoch v0 prev0 m0' = NextEpoch m1 prev1"
    by (auto simp: EpochIteration_def thenE_Inr_iff)
  from EndOfEpoch_NextEpoch[OF e0]
  have prev1: "prev1 = v0" and m1: "m1 = epoch_end_model (EndOfEpoch v0 prev0 m0')" .
  have same1: "m_weightsBackup m1 = m_weights m1" "m_stateBackup m1 = m_state m1"
    by (simp_all add: m1 EndOfEpoch_weights)
  from TrainAndValidate_frame[OF assms(2)]
  have "m_weightsBackup m2 = m_weightsBackup m1" "m_stateBackup m2 = m_stateBackup m1"
    by (simp_all add: pass_frame_def)
  with same1 have backup: "m_weightsBackup m2 = m_weights m1" "m_stateBackup m2 = m_state m1"
    by simp_all
  have it: "EpochIteration X prev1 m1 = Inr (EndOfEpoch valid prev1 m2)"
    by (simp add: EpochIteration_def assms(2))
  from tv0 prev1 backup it show ?thesis
    by (simp add: EndOfEpoch_weights)
qed


theorem rollback_restores_the_end_of_the_previous_epoch_witness:
  "\<exists>m1 m2. EpochIteration example_collaborators (Finite (- (10 ^ 37))) example_model
              = Inr (NextEpoch m1 (Finite (- 1)))
     \<and> TrainAndValidate example_collaborators m1 = Inr (NegInf, m2)
     \<and> d_less NegInf (Finite (- 1))
     \<and> m_weights m1 = 3 \<and> m_weights m2 = 6
     \<and> m_weights (epoch_end_model (EndOfEpoch NegInf (Finite (- 1)) m2)) = 3
     \<and> m_state (epoch_end_model (EndOfEpoch NegInf (Finite (- 1)) m2)) = m_state m1"
proof -
  have "\<exists>m1 m2. EpochIteration example_collaborators (Finite (- (10 ^ 37))) example_model
              = Inr (NextEpoch m1 (Finite (- 1)))
     \<and> TrainAndValidate example_collaborators m1 = Inr (NegInf, m2)
     \<and> m_weights m1 = 3 \<and> m_weights m2 = 6"
    by (simp add: epoch_defs train_step_defs token_step_defs example_simps
        UpdateFeatureLabelVector_eq)
  then obtain m1 m2 where
    prev: "EpochIteration example_collaborators (Finite (- (10 ^ 37))) example_model
              = Inr (NextEpoch m1 (Finite (- 1)))" and
    run: "TrainAndValidate example_collaborators m1 = Inr (NegInf, m2)" and
    w: "m_weights m1 = 3" "m_weights m2 = 6"
    by blast
  have less: "d_less NegInf (Finite (- 1))" by simp
  from rollback_restores_the_end_of_the_previous_epoch[OF prev run] less
  have "m_weights (epoch_end_model (EndOfEpoch NegInf (Finite (- 1)) m2)) = m_weights m1"
    "m_state (epoch_end_model (EndOfEpoch NegInf (Finite (- 1)) m2)) = m_state m1"
    by blast+
  with prev run less w show ?thesis by auto
qed

section \<open>The learning rate at the end of an epoch\<close>

text \<open>
  C3, as amended. When the ratio test holds and the flag \<open>m_doStartReducingLearningRate\<close>
  is not yet set, the end of the epoch sets the flag and, in the same step, halves the
  learning rate; the loop goes on, so the next epoch is trained at half the rate. When
  the ratio test holds and the flag is set, the loop is left with the learning rate as it
  was. When the ratio test does not hold, the loop goes on with the flag as it was, and
  the learning rate is halved exactly when the flag is set.
\<close>

theorem learning_rate_is_halved_as_soon_as_the_flag_is_set:
  "(d_less (valid * m_minLogProbaImprovement m) prev \<and> \<not> m_doStartReducingLearningRate m \<longrightarrow>
      (\<exists>m'. EndOfEpoch valid prev m = NextEpoch m' valid
          \<and> m_doStartReducingLearningRate m'
          \<and> m_learningRate m' = d_div (m_learningRate m) (Finite 2)
          \<and> m_iteration m' = m_iteration m + 1))
   \<and> (d_less (valid * m_minLogProbaImprovement m) prev \<and> m_doStartReducingLearningRate m \<longrightarrow>
      (\<exists>m'. EndOfEpoch valid prev m = Converged m'
          \<and> m_learningRate m' = m_learningRate m \<and> m_iteration m' = m_iteration m))
   \<and> (\<not> d_less (valid * m_minLogProbaImprovement m) prev \<longrightarrow>
      (\<exists>m'. EndOfEpoch valid prev m = NextEpoch m' valid
          \<and> m_doStartReducingLearningRate m' = m_doStartReducingLearningRate m
          \<and> m_learningRate m' = (if m_doStartReducingLearningRate m
                                  then d_div (m_learningRate m) (Finite 2) else m_learningRate m)
          \<and> m_iteration m' = m_iteration m + 1))"
proof (intro conjI impI)
  assume "d_less (valid * m_minLogProbaImprovement m) prev \<and> \<not> m_doStartReducingLearningRate m"
  then show "\<exists>m'. EndOfEpoch valid prev m = NextEpoch m' valid
          \<and> m_doStartReducingLearningRate m'
          \<and> m_learningRate m' = d_div (m_learningRate m) (Finite 2)
          \<and> m_iteration m' = m_iteration m + 1"
    by (simp add: EndOfEpoch_eq ContinueTraining_def Let_def CheckpointOrRollback_keeps)
next
  assume "d_less (valid * m_minLogProbaImprovement m) prev \<and> m_doStartReducingLearningRate m"
  then show "\<exists>m'. EndOfEpoch valid prev m = Converged m'
          \<and> m_learningRate m' = m_learningRate m \<and> m_iteration m' = m_iteration m"
    by (simp add: EndOfEpoch_eq Let_def CheckpointOrRollback_keeps)
next
  assume "\<not> d_less (valid * m_minLogProbaImprovement m) prev"
  then show "\<exists>m'. EndOfEpoch valid prev m = NextEpoch m' valid
          \<and> m_doStartReducingLearningRate m' = m_doStartReducingLearningRate m
          \<and> m_learningRate m' = (if m_doStartReducingLearningRate m
                                  then d_div (m_learningRate m) (Finite 2) else m_learningRate m)
          \<and> m_iteration m' = m_iteration m + 1"
    by (simp add: EndOfEpoch_eq ContinueTraining_def Let_def CheckpointOrRollback_keeps)
qed

theorem learning_rate_is_halved_as_soon_as_the_flag_is_set_witness:
  "d_less (Finite (- 10) * m_minLogProbaImprovement example_model) (Finite (- 10))
   \<and> \<not> m_doStartReducingLearningRate example_model
   \<and> m_learningRate example_model = Finite 1
   \<and> (\<exists>m'. EndOfEpoch (Finite (- 10)) (Finite (- 10)) example_model = NextEpoch m' (Finite (- 10))
          \<and> m_doStartReducingLearningRate m' \<and> m_learningRate m' = Finite (1 / 2))
   \<and> m_doStartReducingLearningRate (example_model\<lparr>m_doStartReducingLearningRate := True\<rparr>)
   \<and> (\<exists>m'. EndOfEpoch (Finite (- 10)) (Finite (- 10))
               (example_model\<lparr>m_doStartReducingLearningRate := True\<rparr>) = Converged m'
          \<and> m_learningRate m' = Finite 1)
   \<and> \<not> d_less (Finite (- 10) * m_minLogProbaImprovement example_model) (Finite (- 11))
   \<and> (\<exists>m'. EndOfEpoch (Finite (- 10)) (Finite (- 11)) example_model = NextEpoch m' (Finite (- 10))
          \<and> \<not> m_doStartReducingLearningRate m' \<and> m_learningRate m' = Finite 1)"
proof -
  have h: "d_less (Finite (- 10) * m_minLogProbaImprovement example_model) (Finite (- 10))"
    "\<not> m_doStartReducingLearningRate example_model"
    "m_learningRate example_model = Finite 1"
    "\<not> d_less (Finite (- 10) * m_minLogProbaImprovement example_model) (Finite (- 11))"
    by (simp_all add: example_simps)
  let ?m = "example_model\<lparr>m_doStartReducingLearningRate := True\<rparr>"
  have g: "d_less (Finite (- 10) * m_minLogProbaImprovement ?m) (Finite (- 10))"
    "m_doStartReducingLearningRate ?m" "m_learningRate ?m = Finite 1"
    by (simp_all add: example_simps)
  from learning_rate_is_halved_as_soon_as_the_flag_is_set[of "Finite (- 10)" example_model
      "Finite (- 10)"] h
  have 1: "\<exists>m'. EndOfEpoch (Finite (- 10)) (Finite (- 10)) example_model
             = NextEpoch m' (Finite (- 10))
          \<and> m_doStartReducingLearningRate m' \<and> m_learningRate m' = Finite (1 / 2)"
    by auto
  from learning_rate_is_halved_as_soon_as_the_flag_is_set[of "Finite (- 10)" ?m "Finite (- 10)"] g
  have 2: "\<exists>m'. EndOfEpoch (Finite (- 10)) (Finite (- 10)) ?m = Converged m'
          \<and> m_learningRate m' = Finite 1"
    by auto
  from learning_rate_is_halved_as_soon_as_the_flag_is_set[of "Finite (- 10)" example_model
      "Finite (- 11)"] h
  have 3: "\<exists>m'. EndOfEpoch (Finite (- 10)) (Finite (- 11)) example_model
             = NextEpoch m' (Finite (- 10))
          \<and> \<not> m_doStartReducingLearningRate m' \<and> m_learningRate m' = Finite 1"
    by auto
  from h g 1 2 3 show ?thesis by blast
qed

text \<open>The claim C3 as it is written fails: with the flag not set and the ratio test
  holding, the loop goes on into the next epoch with half the learning rate.\<close>

theorem learning_rate_is_not_kept_for_one_more_epoch:
  "d_less (Finite (- 10) * m_minLogProbaImprovement example_model) (Finite (- 10))
   \<and> \<not> m_doStartReducingLearningRate example_model
   \<and> m_learningRate example_model = Finite 1
   \<and> EndOfEpoch (Finite (- 10)) (Finite (- 10)) example_model =
       NextEpoch (example_model
           \<lparr>m_wordCounter := 0, m_currentPosTrainFile := 0,
            m_weightsBackup := 0, m_stateBackup := example_state,
            m_doStartReducingLearningRate := True,
            m_learningRate := Finite (1 / 2), m_iteration := 1,
            events := [SaveThisModel, SaveRnnModelToFile, SaveWordEmbeddings]\<rparr>) (Finite (- 10))"
  by (simp add: EndOfEpoch_def CheckpointOrRollback_def ContinueTraining_def Let_def example_simps)


section \<open>A sum of log-probabilities that is no number\<close>

lemma d_noteq_self: "d_noteq x x \<longleftrightarrow> x = NaN"
  by (cases x) simp_all

lemma TrainToken_NaN:
  assumes "PredictWord X (lastLabel L) (lastWord L) (CurrentTokenWord tok) m = Inr mp"
    and "TrainAccumulate X tok (L, mp) = Inr (La, ma)"
    and "trainLogProbability La = NaN"
  shows "TrainToken X tok (L, m) =
           Inl (ReturnFalse (ma\<lparr>events := events ma @ [NumericalErrorInfiniteLogLikelihood]\<rparr>))"
  using assms by (simp add: TrainToken_def Let_def)

lemma TrainToken_not_NaN:
  assumes "TrainToken X tok (L, m) = Inr (L', m')"
  shows "trainLogProbability L' \<noteq> NaN"
proof -
  from assms obtain m1 L2 m2 m3 where
    n: "\<not> d_noteq (trainLogProbability L2) (trainLogProbability L2)" and
    L': "L' = L2\<lparr>lastWord := snd (AdvanceState X (lastWord L2) (CurrentTokenWord tok)
          (DiscountedBackPropagation X (lastWord L2) (CurrentTokenWord tok) (CurrentTokenDiscount tok) m3)),
          lastLabel := CurrentTokenLabel tok\<rparr>"
    by (rule TrainToken_InrE)
  from n show ?thesis by (simp add: L' d_noteq_self)
qed

text \<open>
  C6, as amended. Let a token of the training corpus be reached, in whatever book,
  sentence and unroll, with everything before it handled; and let the accounting of that
  token leave an accumulated log-probability that is no number (NaN). Then the iteration
  of the loop over the epochs stops at that token: \<open>TrainRnnModel\<close> prints the diagnostic
  of a numerical error and returns false, with the object as the accounting left it, no
  back-propagation for that token and no further epoch. Nothing is tried again.
\<close>

theorem NaN_stops_the_training:
  assumes "Books X (m_corpusTrain m) (m_typeOfDepLabels m = 1)
             = bs1 @ (ss1 @ (us1 @ u # us2) # ss2) # bs2"
    and "fst u # snd u = ts1 @ tok # ts2"
    and "for_each (\<lambda>book. for_each (TrainSentence X) book) bs1
           (\<lparr> uniqueWordCounter = 0, logProbSentence = Map.empty, lastWord = 0, lastLabel = 0,
              trainLogProbability = 0 \<rparr>, on_state (ResetAllRnnActivations X) m) = Inr Lmb"
    and "for_each (TrainSentence X) ss1 Lmb = Inr (Ls, ms)"
    and "for_each (TrainUnroll X) us1 (Ls\<lparr>logProbSentence := Map.empty\<rparr>, ms) = Inr (Lu, mu)"
    and "for_each (TrainToken X) ts1 (Lu\<lparr>lastWord := 0, lastLabel := 0\<rparr>, BeginUnroll X mu)
           = Inr (Lt, mt)"
    and "PredictWord X (lastLabel Lt) (lastWord Lt) (CurrentTokenWord tok) mt = Inr mp"
    and "TrainAccumulate X tok (Lt, mp) = Inr (La, ma)"
    and "trainLogProbability La = NaN"
  shows "TrainLoop X (Suc fuel) prev m =
           Some (Inl (ReturnFalse
             (ma\<lparr>events := events ma @ [NumericalErrorInfiniteLogLikelihood]\<rparr>)))"
proof -
  let ?e = "ReturnFalse (ma\<lparr>events := events ma @ [NumericalErrorInfiniteLogLikelihood]\<rparr>)"
  have tok: "TrainToken X tok (Lt, mt) = Inl ?e"
    by (rule TrainToken_NaN[OF assms(7-9)])
  have "for_each (TrainToken X) (ts1 @ tok # ts2)
          (Lu\<lparr>lastWord := 0, lastLabel := 0\<rparr>, BeginUnroll X mu) = Inl ?e"
    by (rule for_each_failure[OF assms(6) tok])
  then have unroll: "TrainUnroll X u (Lu, mu) = Inl ?e"
    by (simp add: TrainUnroll_def assms(2))
  have "for_each (TrainUnroll X) (us1 @ u # us2) (Ls\<lparr>logProbSentence := Map.empty\<rparr>, ms) = Inl ?e"
    by (rule for_each_failure[OF assms(5) unroll])
  then have sentence: "TrainSentence X (us1 @ u # us2) (Ls, ms) = Inl ?e"
    by (simp add: TrainSentence_def)
  have book: "for_each (TrainSentence X) (ss1 @ (us1 @ u # us2) # ss2) Lmb = Inl ?e"
    by (rule for_each_failure[OF assms(4) sentence])
  have "for_each (\<lambda>book. for_each (TrainSentence X) book)
          (bs1 @ (ss1 @ (us1 @ u # us2) # ss2) # bs2)
          (\<lparr> uniqueWordCounter = 0, logProbSentence = Map.empty, lastWord = 0, lastLabel = 0,
             trainLogProbability = 0 \<rparr>, on_state (ResetAllRnnActivations X) m) = Inl ?e"
    by (rule for_each_failure[OF assms(3)]) (rule book)
  then have "TrainEpoch X m = Inl ?e"
    using assms(1) by (simp add: TrainEpoch_def Let_def on_state_def)
  then have "EpochIteration X prev m = Inl ?e"
    by (simp add: EpochIteration_def TrainAndValidate_def)
  then show ?thesis by simp
qed

theorem NaN_stops_the_training_witness:
  "\<exists>mp La ma.
     PredictWord (example_collaborators\<lparr>ForwardPropagateOneStep := \<lambda>m lw word s.
           s\<lparr>OutputLayer := [Finite 1, Finite 1, Finite (- 1), Finite 1]\<rparr>\<rparr>)
        0 0 (CurrentTokenWord (example_token 0 2)) (BeginUnroll example_collaborators example_model)
       = Inr mp
   \<and> TrainAccumulate (example_collaborators\<lparr>ForwardPropagateOneStep := \<lambda>m lw word s.
           s\<lparr>OutputLayer := [Finite 1, Finite 1, Finite (- 1), Finite 1]\<rparr>\<rparr>)
        (example_token 0 2) (example_train_loop, mp) = Inr (La, ma)
   \<and> trainLogProbability La = NaN
   \<and> TrainLoop (example_collaborators\<lparr>ForwardPropagateOneStep := \<lambda>m lw word s.
           s\<lparr>OutputLayer := [Finite 1, Finite 1, Finite (- 1), Finite 1]\<rparr>\<rparr>)
        (Suc 0) (Finite (- (10 ^ 37))) example_model
       = Some (Inl (ReturnFalse
           (ma\<lparr>events := events ma @ [NumericalErrorInfiniteLogLikelihood]\<rparr>)))
   \<and> events ma = [] \<and> m_weights ma = 0"
proof -
  let ?X = "example_collaborators\<lparr>ForwardPropagateOneStep := \<lambda>m lw word s.
           s\<lparr>OutputLayer := [Finite 1, Finite 1, Finite (- 1), Finite 1]\<rparr>\<rparr>"
  let ?L0 = "\<lparr> uniqueWordCounter = 0, logProbSentence = Map.empty, lastWord = 0, lastLabel = 0,
              trainLogProbability = 0 \<rparr> :: train_loop"
  let ?m0 = "on_state (ResetAllRnnActivations ?X) example_model"
  have books: "Books ?X (m_corpusTrain example_model) (m_typeOfDepLabels example_model = 1)
      = [] @ ([] @ ([] @ (example_token 0 2, [example_token 1 1]) # [(example_token 0 2, [])]) # []) # []"
    by (simp add: example_simps example_book_def example_sentence_def)
  have toks: "fst (example_token 0 2, [example_token 1 1]) # snd (example_token 0 2, [example_token 1 1])
      = [] @ example_token 0 2 # [example_token 1 1]"
    by simp
  have b: "for_each (\<lambda>book. for_each (TrainSentence ?X) book) [] (?L0, ?m0) = Inr (?L0, ?m0)"
    by simp
  have s: "for_each (TrainSentence ?X) [] (?L0, ?m0) = Inr (?L0, ?m0)" by simp
  have u: "for_each (TrainUnroll ?X) [] (?L0\<lparr>logProbSentence := Map.empty\<rparr>, ?m0)
      = Inr (?L0, ?m0)" by simp
  have t: "for_each (TrainToken ?X) [] (?L0\<lparr>lastWord := 0, lastLabel := 0\<rparr>, BeginUnroll ?X ?m0)
      = Inr (?L0, BeginUnroll ?X ?m0)" by simp
  have same: "BeginUnroll ?X ?m0 = BeginUnroll example_collaborators example_model"
    "?L0 = example_train_loop"
    by (simp_all add: token_step_defs example_simps)
  have "\<exists>mp La ma.
      PredictWord ?X (lastLabel ?L0) (lastWord ?L0) (CurrentTokenWord (example_token 0 2))
        (BeginUnroll ?X ?m0) = Inr mp
    \<and> TrainAccumulate ?X (example_token 0 2) (?L0, mp) = Inr (La, ma)
    \<and> trainLogProbability La = NaN \<and> events ma = [] \<and> m_weights ma = 0"
    by (simp add: TrainAccumulate_def token_step_defs example_simps UpdateFeatureLabelVector_eq)
  then obtain mp La ma where
    p: "PredictWord ?X (lastLabel ?L0) (lastWord ?L0) (CurrentTokenWord (example_token 0 2))
          (BeginUnroll ?X ?m0) = Inr mp" and
    a: "TrainAccumulate ?X (example_token 0 2) (?L0, mp) = Inr (La, ma)" and
    nan: "trainLogProbability La = NaN" and rest: "events ma = []" "m_weights ma = 0"
    by blast
  from NaN_stops_the_training[OF books toks b s u t p a nan, of 0 "Finite (- (10 ^ 37))"]
  have "TrainLoop ?X (Suc 0) (Finite (- (10 ^ 37))) example_model =
      Some (Inl (ReturnFalse (ma\<lparr>events := events ma @ [NumericalErrorInfiniteLogLikelihood]\<rparr>)))" .
  with p a nan rest show ?thesis
    unfolding same by (auto simp: example_simps)
qed

text \<open>The claim C6 as it is written fails for an infinite sum: with the weights at 4 the
  example gives the first word the probability 0, and the accumulated log-probability
  is minus infinity from the first token on; the pass over the corpus goes on to its end,
  and the loop over the epochs goes on after it.\<close>

theorem infinite_log_probability_does_not_stop_the_training:
  "map_sum id (\<lambda>(L, m). trainLogProbability L)
     (TrainToken example_collaborators (example_token 0 2)
        (example_train_loop, BeginUnroll example_collaborators (example_model\<lparr>m_weights := 4\<rparr>)))
     = Inr NegInf
   \<and> map_sum id (\<lambda>(L, m). (trainLogProbability L, m_weights m, events m))
       (TrainEpoch example_collaborators (example_model\<lparr>m_weights := 4\<rparr>))
     = Inr (NegInf, 7, [])
   \<and> map_sum id (\<lambda>e. case e of NextEpoch m v \<Rightarrow> True | Converged m \<Rightarrow> False)
       (EpochIteration example_collaborators (Finite (- (10 ^ 37))) (example_model\<lparr>m_weights := 4\<rparr>))
     = Inr True"
  by (simp add: epoch_defs train_step_defs token_step_defs example_simps UpdateFeatureLabelVector_eq)

section \<open>Perplexity and entropy\<close>

lemma log_10_2_pos: "0 < log 10 (2::real)"
  by simp

lemma log_10_2_nonzero: "log 10 (2::real) \<noteq> 0"
  using log_10_2_pos by linarith

lemma entropy_perplexity_real:
  fixes l :: real and n :: int
  assumes "0 < n"
  shows "10 powr (- l / real_of_int n) = 2 powr (- l / log 10 2 / real_of_int n)"
proof -
  have "(2::real) = 10 powr (log 10 2)" by simp
  then have "2 powr (- l / log 10 2 / real_of_int n)
      = (10 powr (log 10 2)) powr (- l / log 10 2 / real_of_int n)"
    by simp
  also have "\<dots> = 10 powr (log 10 2 * (- l / log 10 2 / real_of_int n))"
    by (simp only: powr_powr)
  also have "log 10 2 * (- l / log 10 2 / real_of_int n) = - l / real_of_int n"
    using log_10_2_nonzero by simp
  finally show ?thesis by simp
qed

text \<open>
  C7, as amended. For a finite log-probability and a word count above 0, the perplexity
  \<open>10^(-logProbability/wordCount)\<close> and the entropy \<open>-logProbability/log10(2)/wordCount\<close>
  that the training loop computes, for the training pass and for the validation, are
  finite and satisfy \<open>perplexity = 2^entropy\<close> (in exact arithmetic): the entropy is in
  bits.
\<close>

theorem perplexity_is_two_to_the_entropy:
  assumes "0 < wordCount"
  shows "\<exists>p e. trainPerplexity (Finite l) wordCount = Finite p
            \<and> trainEntropy (Finite l) wordCount = Finite e
            \<and> validPerplexity (Finite l) wordCount = Finite p
            \<and> validEntropy (Finite l) wordCount = Finite e
            \<and> p = 2 powr e"
  using assms entropy_perplexity_real[OF assms, of l]
  by (simp add: trainPerplexity_def trainEntropy_def validPerplexity_def validEntropy_def
      double_of_int_def log_10_2_nonzero)

theorem perplexity_is_two_to_the_entropy_witness:
  "(0::int) < 1 \<and> trainPerplexity (Finite (- 1)) 1 = Finite 10
   \<and> (\<exists>e. trainEntropy (Finite (- 1)) 1 = Finite e \<and> 2 powr e = 10)"
proof -
  have p: "trainPerplexity (Finite (- 1)) 1 = Finite 10"
    by (simp add: trainPerplexity_def double_of_int_def)
  from perplexity_is_two_to_the_entropy[of 1 "- 1"] p show ?thesis by auto
qed

text \<open>The claim C7 as it is written fails: for the log-probability \<open>-1\<close> of one word the
  perplexity is 10, and ten to the power of the entropy is not.\<close>

theorem perplexity_is_not_ten_to_the_entropy:
  "trainPerplexity (Finite (- 1)) 1 = Finite 10
   \<and> d_noteq (trainPerplexity (Finite (- 1)) 1)
        (ExponentiateBase10 (trainEntropy (Finite (- 1)) 1))
   \<and> d_noteq (validPerplexity (Finite (- 1)) 1)
        (ExponentiateBase10 (validEntropy (Finite (- 1)) 1))"
proof -
  have e: "trainEntropy (Finite (- 1)) 1 = Finite (1 / log 10 2)"
    "validEntropy (Finite (- 1)) 1 = Finite (1 / log 10 2)"
    by (simp_all add: trainEntropy_def validEntropy_def double_of_int_def log_10_2_nonzero)
  have p: "trainPerplexity (Finite (- 1)) 1 = Finite 10"
    "validPerplexity (Finite (- 1)) 1 = Finite 10"
    by (simp_all add: trainPerplexity_def validPerplexity_def double_of_int_def)
  have lt: "log 10 (2::real) < 1" using log_less_cancel_iff[of 10 2 10] by simp
  have "1 / log 10 (2::real) \<noteq> 1"
  proof
    assume "1 / log 10 (2::real) = 1"
    then have "log 10 (2::real) = 1" using log_10_2_nonzero by (simp add: field_simps)
    with lt show False by simp
  qed
  then have "(10::real) powr (1 / log 10 2) \<noteq> 10 powr 1"
    by (simp only: powr_inj[of 10] ) simp
  then have "(10::real) powr (1 / log 10 2) \<noteq> 10" by simp
  then show ?thesis by (simp add: e p)
qed

section \<open>A class file and the vocabulary\<close>

text \<open>
  C8. When a class file is used, \<open>LearnVocabularyFromTrainFile\<close> prints the diagnostic
  and returns false. The object is then as \<open>ReadVocabulary\<close> and \<open>FilterSortVocabulary\<close>
  have left the word count and the corpus readers, with the vocabulary vector, the two
  maps between words and indices and the map of the labels empty, and with nothing else
  written: no word and no label has been added, and the vocabulary of the validation
  reader is not touched.
\<close>

theorem class_file_aborts_with_vocabulary_cleared:
  assumes "m_usesClassFile m"
  shows "LearnVocabularyFromTrainFile X m =
     Inl (ReturnFalse (m
       \<lparr>m_numTrainWords := fst (ReadVocabulary X (m_typeOfDepLabels m = 1) (m_corpusVocabulary m)),
        m_corpusVocabulary := snd (ReadVocabulary X (m_typeOfDepLabels m = 1) (m_corpusVocabulary m)),
        m_corpusTrain := FilterSortVocabulary X (m_corpusTrain m)
           (snd (ReadVocabulary X (m_typeOfDepLabels m = 1) (m_corpusVocabulary m))),
        m_vocabularyStorage := [], m_mapWord2Index := Map.empty, m_mapIndex2Word := Map.empty,
        m_mapLabel2Index := Map.empty,
        events := events m @ [ClassFilesNotImplemented]\<rparr>))"
  using assms by (simp add: LearnVocabularyFromTrainFile_def Let_def split_def)

theorem class_file_aborts_with_vocabulary_cleared_witness:
  "m_usesClassFile (example_model\<lparr>m_usesClassFile := True\<rparr>)
   \<and> LearnVocabularyFromTrainFile example_collaborators (example_model\<lparr>m_usesClassFile := True\<rparr>) =
     Inl (ReturnFalse (example_model
       \<lparr>m_usesClassFile := True, m_numTrainWords := 3,
        m_vocabularyStorage := [], m_mapWord2Index := Map.empty, m_mapIndex2Word := Map.empty,
        m_mapLabel2Index := Map.empty,
        events := [ClassFilesNotImplemented]\<rparr>))"
proof -
  have u: "m_usesClassFile (example_model\<lparr>m_usesClassFile := True\<rparr>)" by simp
  have c: "ReadVocabulary example_collaborators b c = (3, c)"
    "FilterSortVocabulary example_collaborators c c' = c" for b c c'
    by (simp_all add: example_collaborators_def)
  have r: "m_corpusVocabulary example_model = []" by (simp add: example_model_def)
  from class_file_aborts_with_vocabulary_cleared[OF u, of example_collaborators]
  show ?thesis by (simp add: c r example_simps)
qed

end
